theory Spec2Isabelle
  imports Main "HOL-Library.Char_ord" "HOL-Library.List_Lexorder" "HOL-Library.Product_Lexorder"
begin

section \<open>Errors and panics\<close>

text \<open>
  Go functions of the Scaleway tasks return an \<open>error\<close> value (\<open>nil\<close> on success).
  \<open>fi.CannotChangeField\<close> and \<open>fi.RequiredField\<close> build the two validation errors,
  \<open>fmt.Errorf(msg + ": %w", err)\<close> wraps a cause (\<open>Errorf msg (Some err)\<close>),
  \<open>fmt.Errorf(msg + ": %v", err)\<close> only prints it (\<open>ErrorfText msg err\<close>) and
  \<open>fmt.Errorf\<close> with no error operand builds a fresh error (\<open>Errorf msg None\<close>).
  A run-time panic (nil pointer dereference, index out of range) is not a returned
  value; it is kept as the constructor \<open>Panic\<close> so that every way a function can end
  is a value of the model.
\<close>

datatype error =
    CannotChangeField string
  | RequiredField string
  | CloudError string
  | Errorf string "error option"
  | ErrorfText string error
  | Panic string

definition nilPointerDereference :: error where
  "nilPointerDereference = Panic ''invalid memory address or nil pointer dereference''"

definition indexOutOfRange :: error where
  "indexOutOfRange = Panic ''index out of range''"

fun isCannotChangeField :: "error option \<Rightarrow> bool" where
  "isCannotChangeField (Some (CannotChangeField f)) = True"
| "isCannotChangeField e = False"

fun isRequiredField :: "error option \<Rightarrow> bool" where
  "isRequiredField (Some (RequiredField f)) = True"
| "isRequiredField e = False"

text \<open>\<open>fi.ValueOf\<close>: the value behind a pointer, the zero value for \<open>nil\<close>.\<close>

definition ValueOf :: "string option \<Rightarrow> string" where
  "ValueOf p = (case p of None \<Rightarrow> [] | Some v \<Rightarrow> v)"

section \<open>First free index\<close>

text \<open>
  Modelled from the spec: \<open>findFirstFreeIndex\<close> itself is not among the sources (only its
  test \<open>TestFindFirstFreeIndex\<close> is). The specification says that the algorithm scans the
  existing ordinals, sorts them, and returns the smallest non-negative integer not
  already in use. The ordinals are Go \<open>int\<close>s; \<open>firstFreeFrom c\<close> walks the sorted
  ordinals with the candidate \<open>c\<close>, stepping over ordinals below the candidate.
\<close>

fun firstFreeFrom :: "int \<Rightarrow> int list \<Rightarrow> int" where
  "firstFreeFrom c [] = c"
| "firstFreeFrom c (x # xs) =
     (if x < c then firstFreeFrom c xs
      else if x = c then firstFreeFrom (c + 1) xs
      else c)"

definition findFirstFreeIndex :: "int list \<Rightarrow> int" where
  "findFirstFreeIndex ordinals = firstFreeFrom 0 (sort ordinals)"

section \<open>Tasks\<close>

type_synonym Lifecycle = string

text \<open>
  A \<open>*string\<close> field is a \<open>string option\<close>. A reference to another task
  (\<open>*Gateway\<close>, \<open>*PrivateNetwork\<close>, \<open>*Instance\<close>) is an option of the referenced record, read
  at the moment of the call. The declarations of \<open>PrivateNetwork\<close> and \<open>Instance\<close> are not
  among the sources; the records keep the fields that the modelled functions read.
\<close>

record PrivateNetwork =
  pn_ID :: "string option"
  pn_Name :: "string option"

record Instance =
  in_Name :: "string option"
  in_Tags :: "string list"

record Gateway =
  gw_ID :: "string option"
  gw_Name :: "string option"
  gw_Zone :: "string option"
  gw_Tags :: "string list"
  gw_Lifecycle :: Lifecycle

record GatewayNetwork =
  gwn_ID :: "string option"
  gwn_Name :: "string option"
  gwn_Zone :: "string option"
  gwn_Lifecycle :: Lifecycle
  gwn_Gateway :: "Gateway option"
  gwn_PrivateNetwork :: "PrivateNetwork option"

record DNSRecord =
  dns_Name :: "string option"
  dns_Data :: "string option"
  dns_DNSZone :: "string option"
  dns_Type :: "string option"
  dns_Lifecycle :: Lifecycle

record LoadBalancer =
  lb_ID :: "string option"
  lb_Name :: "string option"
  lb_Zone :: "string option"
  lb_Tags :: "string list"
  lb_Type :: string
  lb_LBAddresses :: "string list"
  lb_Description :: string
  lb_SslCompatibilityLevel :: string
  lb_WellKnownServices :: "string list"
  lb_ForAPIServer :: bool
  lb_Lifecycle :: Lifecycle
  lb_PrivateNetwork :: "PrivateNetwork option"

record PrivateNIC =
  nic_Name :: "string option"
  nic_Zone :: "string option"
  nic_Tags :: "string list"
  nic_ForAPIServer :: bool
  nic_Count :: int
  nic_Lifecycle :: Lifecycle
  nic_Instance :: "Instance option"
  nic_PrivateNetwork :: "PrivateNetwork option"

section \<open>CheckChanges\<close>

text \<open>
  \<open>CheckChanges(actual, expected, changes)\<close> of each task kind. The three arguments are
  pointers; reading a field through a \<open>nil\<close> one panics.
\<close>

definition GatewayNetwork_CheckChanges ::
  "GatewayNetwork option \<Rightarrow> GatewayNetwork option \<Rightarrow> GatewayNetwork option \<Rightarrow> error option" where
  "GatewayNetwork_CheckChanges actual expected changes =
     (if actual \<noteq> None then
        (case changes of
           None \<Rightarrow> Some nilPointerDereference
         | Some c \<Rightarrow>
             if gwn_ID c \<noteq> None then Some (CannotChangeField ''ID'')
             else if gwn_Zone c \<noteq> None then Some (CannotChangeField ''Zone'')
             else None)
      else
        (case expected of
           None \<Rightarrow> Some nilPointerDereference
         | Some e \<Rightarrow>
             if gwn_Zone e = None then Some (RequiredField ''Zone'')
             else None))"

definition DNSRecord_CheckChanges ::
  "DNSRecord option \<Rightarrow> DNSRecord option \<Rightarrow> DNSRecord option \<Rightarrow> error option" where
  "DNSRecord_CheckChanges actual expected changes =
     (if actual \<noteq> None then
        (case changes of
           None \<Rightarrow> Some nilPointerDereference
         | Some c \<Rightarrow>
             if dns_Name c \<noteq> None then Some (CannotChangeField ''Name'')
             else if dns_DNSZone c \<noteq> None then Some (CannotChangeField ''DNSZone'')
             else if dns_Type c \<noteq> None then Some (CannotChangeField ''Type'')
             else None)
      else
        (case expected of
           None \<Rightarrow> Some nilPointerDereference
         | Some e \<Rightarrow>
             if dns_Name e = None then Some (RequiredField ''Name'')
             else if dns_DNSZone e = None then Some (RequiredField ''DNSZone'')
             else if dns_Type e = None then Some (RequiredField ''Type'')
             else if dns_Data e = None then Some (RequiredField ''Data'')
             else None))"

definition LoadBalancer_CheckChanges ::
  "LoadBalancer option \<Rightarrow> LoadBalancer option \<Rightarrow> LoadBalancer option \<Rightarrow> error option" where
  "LoadBalancer_CheckChanges actual expected changes =
     (if actual \<noteq> None then
        (case changes of
           None \<Rightarrow> Some nilPointerDereference
         | Some c \<Rightarrow>
             if lb_Name c \<noteq> None then Some (CannotChangeField ''Name'')
             else if lb_ID c \<noteq> None then Some (CannotChangeField ''ID'')
             else if lb_Zone c \<noteq> None then Some (CannotChangeField ''Zone'')
             else None)
      else
        (case expected of
           None \<Rightarrow> Some nilPointerDereference
         | Some e \<Rightarrow>
             if lb_Name e = None then Some (RequiredField ''Name'')
             else if lb_Zone e = None then Some (RequiredField ''Zone'')
             else None))"

definition Gateway_CheckChanges ::
  "Gateway option \<Rightarrow> Gateway option \<Rightarrow> Gateway option \<Rightarrow> error option" where
  "Gateway_CheckChanges actual expected changes =
     (if actual \<noteq> None then
        (case changes of
           None \<Rightarrow> Some nilPointerDereference
         | Some c \<Rightarrow>
             if gw_Name c \<noteq> None then Some (CannotChangeField ''Name'')
             else if gw_ID c \<noteq> None then Some (CannotChangeField ''ID'')
             else if gw_Zone c \<noteq> None then Some (CannotChangeField ''Zone'')
             else None)
      else
        (case expected of
           None \<Rightarrow> Some nilPointerDereference
         | Some e \<Rightarrow>
             if gw_Name e = None then Some (RequiredField ''Name'')
             else if gw_Zone e = None then Some (RequiredField ''Zone'')
             else None))"

definition PrivateNIC_CheckChanges ::
  "PrivateNIC option \<Rightarrow> PrivateNIC option \<Rightarrow> PrivateNIC option \<Rightarrow> error option" where
  "PrivateNIC_CheckChanges actual expected changes =
     (if actual \<noteq> None then
        (case changes of
           None \<Rightarrow> Some nilPointerDereference
         | Some c \<Rightarrow>
             if nic_Name c \<noteq> None then Some (CannotChangeField ''Name'')
             else if nic_Zone c \<noteq> None then Some (CannotChangeField ''Zone'')
             else None)
      else
        (case expected of
           None \<Rightarrow> Some nilPointerDereference
         | Some e \<Rightarrow>
             if nic_Name e = None then Some (RequiredField ''Name'')
             else if nic_Zone e = None then Some (RequiredField ''Zone'')
             else None))"

section \<open>Sample tasks\<close>

text \<open>Concrete tasks on which the properties below are evaluated.\<close>

definition sampleGateway :: Gateway where
  "sampleGateway = \<lparr>gw_ID = Some ''gw-1'', gw_Name = Some ''gateway'', gw_Zone = Some ''fr-par-1'',
     gw_Tags = [], gw_Lifecycle = ''Sync''\<rparr>"

definition samplePrivateNetwork :: PrivateNetwork where
  "samplePrivateNetwork = \<lparr>pn_ID = Some ''pn-1'', pn_Name = Some ''network''\<rparr>"

definition sampleGatewayNetwork :: GatewayNetwork where
  "sampleGatewayNetwork = \<lparr>gwn_ID = Some ''gwn-1'', gwn_Name = Some ''gwn'',
     gwn_Zone = Some ''fr-par-1'', gwn_Lifecycle = ''Sync'',
     gwn_Gateway = Some sampleGateway, gwn_PrivateNetwork = Some samplePrivateNetwork\<rparr>"

definition sampleDNSRecord :: DNSRecord where
  "sampleDNSRecord = \<lparr>dns_Name = Some ''api'', dns_Data = Some ''10.0.0.1'',
     dns_DNSZone = Some ''example.com'', dns_Type = Some ''A'', dns_Lifecycle = ''Sync''\<rparr>"

definition sampleInstance :: Instance where
  "sampleInstance = \<lparr>in_Name = Some ''control-plane-1'', in_Tags = []\<rparr>"

definition sampleLoadBalancer :: LoadBalancer where
  "sampleLoadBalancer = \<lparr>lb_ID = Some ''lb-1'', lb_Name = Some ''api'', lb_Zone = Some ''fr-par-1'',
     lb_Tags = [], lb_Type = ''LB-S'', lb_LBAddresses = [], lb_Description = [],
     lb_SslCompatibilityLevel = [], lb_WellKnownServices = [], lb_ForAPIServer = True,
     lb_Lifecycle = ''Sync'', lb_PrivateNetwork = Some samplePrivateNetwork\<rparr>"

definition samplePrivateNIC :: PrivateNIC where
  "samplePrivateNIC = \<lparr>nic_Name = Some ''nodes'', nic_Zone = Some ''fr-par-1'', nic_Tags = [],
     nic_ForAPIServer = False, nic_Count = 1, nic_Lifecycle = ''Sync'',
     nic_Instance = Some sampleInstance, nic_PrivateNetwork = Some samplePrivateNetwork\<rparr>"

section \<open>The Scaleway cloud\<close>

subsection \<open>Strings and tags\<close>

definition HasPrefix :: "string \<Rightarrow> string \<Rightarrow> bool" where
  "HasPrefix s p = (take (length p) s = p)"

definition TrimPrefix :: "string \<Rightarrow> string \<Rightarrow> string" where
  "TrimPrefix s p = (if HasPrefix s p then drop (length p) s else s)"

definition TagClusterName :: string where
  "TagClusterName = ''noprefix=kops.k8s.io/cluster''"

definition TagInstanceGroup :: string where
  "TagInstanceGroup = ''noprefix=kops.k8s.io/instance-group''"

definition TagNameRolePrefix :: string where
  "TagNameRolePrefix = ''noprefix=kops.k8s.io/role''"


definition TagRoleWorker :: string where
  "TagRoleWorker = ''Node''"

fun ClusterNameFromTags :: "string list \<Rightarrow> string" where
  "ClusterNameFromTags [] = []"
| "ClusterNameFromTags (tag # tags) =
     (if HasPrefix tag TagClusterName then TrimPrefix tag (TagClusterName @ ''='')
      else ClusterNameFromTags tags)"

fun InstanceRoleFromTags :: "string list \<Rightarrow> string" where
  "InstanceRoleFromTags [] = []"
| "InstanceRoleFromTags (tag # tags) =
     (if HasPrefix tag TagNameRolePrefix then TrimPrefix tag (TagNameRolePrefix @ ''='')
      else InstanceRoleFromTags tags)"

subsection \<open>Resources and responses of the SDK\<close>

text \<open>
  The SDK's resource and response structures, with the fields the tasks read.
  \<open>TotalCount\<close> is an unsigned counter that the tasks only compare with 0 and 1.
\<close>

record vpcgw_GatewayNetwork =
  vgwn_ID :: string
  vgwn_Zone :: string

record vpcgw_Gateway =
  vgw_ID :: string
  vgw_Name :: string
  vgw_Zone :: string
  vgw_Tags :: "string list"

record lb_IP =
  IPAddress :: string

record lb_LB =
  llb_ID :: string
  llb_Name :: string
  llb_Zone :: string
  llb_Tags :: "string list"
  llb_IP :: "lb_IP list"

record ipam_IP =
  ipam_Address :: string

record domain_Record =
  rec_ID :: string
  rec_Name :: string
  rec_Data :: string
  rec_TTL :: nat
  rec_Type :: string

record instance_PrivateNIC =
  pnic_ID :: string
  pnic_Tags :: "string list"

record instance_Server =
  srv_ID :: string
  srv_Name :: string
  srv_Zone :: string
  srv_Tags :: "string list"
  srv_PrivateNics :: "instance_PrivateNIC list"

record ListGatewayNetworksResponse =
  GatewayNetworks :: "vpcgw_GatewayNetwork list"
  gwns_TotalCount :: nat

record ListGatewaysResponse =
  Gateways :: "vpcgw_Gateway list"
  gws_TotalCount :: nat

record ListLBsResponse =
  LBs :: "lb_LB list"
  lbs_TotalCount :: nat

record ListDNSZoneRecordsResponse =
  Records :: "domain_Record list"
  recs_TotalCount :: nat

subsection \<open>Requests\<close>

text \<open>
  Requests are only built by the tasks; each is a constructor whose arguments are the
  fields the task sets, in the order of the source.
\<close>

datatype ListGatewayNetworksRequest =
  ListGatewayNetworksRequest string "string option" "string option"
  \<comment> \<open>Zone, GatewayID, PrivateNetworkID\<close>

datatype ListGatewaysRequest =
  ListGatewaysRequest string "string option" "string list"
  \<comment> \<open>Zone, Name, Tags\<close>

datatype ListLBsRequest =
  ListLBsRequest string "string option"
  \<comment> \<open>Zone, Name\<close>

datatype ListIPsRequest =
  ListIPsRequest string "string option" "string option" "bool option"
  \<comment> \<open>Region, PrivateNetworkID, ResourceID, IsIPv6\<close>

datatype ListDNSZoneRecordsRequest =
  ListDNSZoneRecordsRequest string string string
  \<comment> \<open>DNSZone, Name, Type\<close>

datatype ListServersRequest =
  ListServersRequest string "string option" "string list"
  \<comment> \<open>Zone, Name, Tags\<close>

datatype ListPrivateNICsRequest =
  ListPrivateNICsRequest string "string list" string
  \<comment> \<open>Zone, Tags, ServerID\<close>

datatype CreateGatewayNetworkRequest =
  CreateGatewayNetworkRequest string string string bool bool bool
  \<comment> \<open>Zone, GatewayID, PrivateNetworkID, EnableMasquerade, EnableDHCP, IpamConfig.PushDefaultRoute\<close>

datatype WaitForGatewayNetworkRequest =
  WaitForGatewayNetworkRequest string string
  \<comment> \<open>GatewayNetworkID, Zone\<close>

datatype CreatePATRuleRequest =
  CreatePATRuleRequest string string nat string nat string
  \<comment> \<open>Zone, GatewayID, PublicPort, PrivateIP, PrivatePort, Protocol\<close>

datatype CreateGatewayRequest =
  CreateGatewayRequest string string "string list" string bool nat
  \<comment> \<open>Zone, Name, Tags, Type, EnableBastion, BastionPort\<close>

datatype WaitForGatewayRequest =
  WaitForGatewayRequest string string
  \<comment> \<open>GatewayID, Zone\<close>

datatype CreateLBRequest =
  CreateLBRequest string string "string list" string bool
  \<comment> \<open>Zone, Name, Tags, Type, AssignFlexibleIP\<close>

datatype WaitForLBRequest =
  WaitForLBRequest string string
  \<comment> \<open>LBID, Zone\<close>

datatype AttachPrivateNetworkRequest =
  AttachPrivateNetworkRequest string string string
  \<comment> \<open>Zone, LBID, PrivateNetworkID\<close>

datatype UpdateLBRequest =
  UpdateLBRequest string string string string string "string list"
  \<comment> \<open>Zone, LBID, Name, Description, SslCompatibilityLevel, Tags\<close>

datatype CreatePrivateNICRequest =
  CreatePrivateNICRequest string string string "string list"
  \<comment> \<open>Zone, ServerID, PrivateNetworkID, Tags\<close>

datatype WaitForPrivateNICRequest =
  WaitForPrivateNICRequest string string string
  \<comment> \<open>ServerID, PrivateNicID, Zone\<close>

datatype UpdatePrivateNICRequest =
  UpdatePrivateNICRequest string string string "string list option"
  \<comment> \<open>Zone, ServerID, PrivateNicID, Tags\<close>

text \<open>A \<open>domain.RecordChange\<close> with its \<open>Add\<close>, its \<open>Set\<close> (ID, records) or its \<open>Delete\<close>
  (ID) field set.\<close>

datatype RecordChange =
    ChangeAdd "domain_Record list"
  | ChangeSet string "domain_Record list"
  | ChangeDelete string

datatype UpdateDNSZoneRecordsRequest =
  UpdateDNSZoneRecordsRequest string "RecordChange list"
  \<comment> \<open>DNSZone, Changes\<close>

subsection \<open>Services\<close>

text \<open>
  The cloud is outside the program: every API operation is a parameter. A listing reads
  the cloud's state \<open>'s\<close>; a mutating or waiting operation also returns the next state.
  Each returns either an error or its response. \<open>GetServerPrivateIP\<close> is the method
  of the \<open>ScwCloud\<close> interface (server ID, zone), \<open>ZoneRegion\<close> stands for the SDK's
  \<open>scw.Zone.Region\<close> and \<open>IsIPv6String\<close> for \<open>net.IsIPv6String\<close>.
\<close>

record 's GatewayAPI =
  ListGatewayNetworks :: "ListGatewayNetworksRequest \<Rightarrow> 's \<Rightarrow> error + ListGatewayNetworksResponse"
  ListGateways :: "ListGatewaysRequest \<Rightarrow> 's \<Rightarrow> error + ListGatewaysResponse"
  CreateGatewayNetwork :: "CreateGatewayNetworkRequest \<Rightarrow> 's \<Rightarrow> (error + vpcgw_GatewayNetwork) \<times> 's"
  WaitForGatewayNetwork :: "WaitForGatewayNetworkRequest \<Rightarrow> 's \<Rightarrow> (error + vpcgw_GatewayNetwork) \<times> 's"
  CreatePATRule :: "CreatePATRuleRequest \<Rightarrow> 's \<Rightarrow> (error + unit) \<times> 's"
  CreateGateway :: "CreateGatewayRequest \<Rightarrow> 's \<Rightarrow> (error + vpcgw_Gateway) \<times> 's"
  WaitForGateway :: "WaitForGatewayRequest \<Rightarrow> 's \<Rightarrow> (error + vpcgw_Gateway) \<times> 's"

record 's LBAPI =
  ListLBs :: "ListLBsRequest \<Rightarrow> 's \<Rightarrow> error + ListLBsResponse"
  CreateLB :: "CreateLBRequest \<Rightarrow> 's \<Rightarrow> (error + lb_LB) \<times> 's"
  WaitForLb :: "WaitForLBRequest \<Rightarrow> 's \<Rightarrow> (error + lb_LB) \<times> 's"
  AttachPrivateNetwork :: "AttachPrivateNetworkRequest \<Rightarrow> 's \<Rightarrow> (error + unit) \<times> 's"
  UpdateLB :: "UpdateLBRequest \<Rightarrow> 's \<Rightarrow> (error + lb_LB) \<times> 's"

record 's InstanceAPI =
  ListServers :: "ListServersRequest \<Rightarrow> 's \<Rightarrow> error + instance_Server list"
  ListPrivateNICs :: "ListPrivateNICsRequest \<Rightarrow> 's \<Rightarrow> error + instance_PrivateNIC list"
  CreatePrivateNIC :: "CreatePrivateNICRequest \<Rightarrow> 's \<Rightarrow> (error + instance_PrivateNIC) \<times> 's"
  WaitForPrivateNIC :: "WaitForPrivateNICRequest \<Rightarrow> 's \<Rightarrow> (error + instance_PrivateNIC) \<times> 's"
  UpdatePrivateNIC :: "UpdatePrivateNICRequest \<Rightarrow> 's \<Rightarrow> (error + instance_PrivateNIC) \<times> 's"

record 's ScwCloud =
  Zone :: string
  GatewayService :: "'s GatewayAPI"
  LBService :: "'s LBAPI"
  InstanceService :: "'s InstanceAPI"
  IPAM_ListIPs :: "ListIPsRequest \<Rightarrow> 's \<Rightarrow> error + ipam_IP list"
  Domain_ListDNSZoneRecords :: "ListDNSZoneRecordsRequest \<Rightarrow> 's \<Rightarrow> error + ListDNSZoneRecordsResponse"
  Domain_UpdateDNSZoneRecords :: "UpdateDNSZoneRecordsRequest \<Rightarrow> 's \<Rightarrow> (error + unit) \<times> 's"
  GetServerPrivateIP :: "string \<Rightarrow> string \<Rightarrow> 's \<Rightarrow> error + string"
  ZoneRegion :: "string \<Rightarrow> error + string"
  IsIPv6String :: "string \<Rightarrow> bool"

text \<open>\<open>scwCloudImplementation.GetClusterServers\<close> (cloud.go).\<close>

definition GetClusterServers ::
  "'s ScwCloud \<Rightarrow> string \<Rightarrow> string option \<Rightarrow> 's \<Rightarrow> error + instance_Server list" where
  "GetClusterServers cloud clusterName instanceGroupName s =
     (let tags = [TagClusterName @ ''='' @ clusterName];
          tags = (case instanceGroupName of
                    None \<Rightarrow> tags
                  | Some ig \<Rightarrow> tags @ [TagInstanceGroup @ ''='' @ ig])
      in case ListServers (InstanceService cloud)
                (ListServersRequest (Zone cloud) instanceGroupName tags) s of
           Inl err \<Rightarrow>
             (if instanceGroupName \<noteq> None
              then Inl (Errorf ''failed to list cluster servers named %q'' (Some err))
              else Inl (Errorf ''failed to list cluster servers'' (Some err)))
         | Inr servers \<Rightarrow> Inr servers)"

section \<open>Find\<close>

text \<open>
  \<open>Find\<close> returns \<open>(task, error)\<close>: \<open>Inl err\<close> is \<open>(nil, err)\<close>, \<open>Inr None\<close> is
  \<open>(nil, nil)\<close> and \<open>Inr (Some t)\<close> is \<open>(t, nil)\<close>. The message of an error built by
  \<open>fmt.Errorf\<close> is its format string, up to the verb that prints the cause; the
  arguments of the other verbs are not formatted.
\<close>

definition GatewayNetwork_Find ::
  "'s ScwCloud \<Rightarrow> GatewayNetwork \<Rightarrow> 's \<Rightarrow> error + GatewayNetwork option" where
  "GatewayNetwork_Find cloud g s =
     (case gwn_Gateway g of
        None \<Rightarrow> Inl nilPointerDereference
      | Some gateway \<Rightarrow>
     (case gwn_PrivateNetwork g of
        None \<Rightarrow> Inl nilPointerDereference
      | Some privateNetwork \<Rightarrow>
     (case ListGatewayNetworks (GatewayService cloud)
             (ListGatewayNetworksRequest (Zone cloud) (gw_ID gateway) (pn_ID privateNetwork)) s of
        Inl err \<Rightarrow> Inl (Errorf ''listing gateway networks'' (Some err))
      | Inr gwns \<Rightarrow>
          if gwns_TotalCount gwns = 0 then Inr None
          else if gwns_TotalCount gwns > 1
          then Inl (Errorf ''expected exactly 1 gateway network, got %d'' None)
          else (case GatewayNetworks gwns of
                  [] \<Rightarrow> Inl indexOutOfRange
                | gwnFound # _ \<Rightarrow>
                    Inr (Some \<lparr>gwn_ID = Some (vgwn_ID gwnFound), gwn_Name = None,
                              gwn_Zone = Some (vgwn_Zone gwnFound),
                              gwn_Lifecycle = gwn_Lifecycle g,
                              gwn_Gateway = gwn_Gateway g,
                              gwn_PrivateNetwork = gwn_PrivateNetwork g\<rparr>)))))"


definition Gateway_Find ::
  "'s ScwCloud \<Rightarrow> Gateway \<Rightarrow> 's \<Rightarrow> error + Gateway option" where
  "Gateway_Find cloud g s =
     (case ListGateways (GatewayService cloud)
             (ListGatewaysRequest (Zone cloud) (gw_Name g)
                [TagClusterName @ ''='' @ ClusterNameFromTags (gw_Tags g)]) s of
        Inl err \<Rightarrow> Inl (Errorf ''listing gateways'' (Some err))
      | Inr gateways \<Rightarrow>
          if gws_TotalCount gateways = 0 then Inr None
          else if gws_TotalCount gateways > 1
          then Inl (Errorf ''expected exactly 1 gateway, got %d'' None)
          else (case Gateways gateways of
                  [] \<Rightarrow> Inl indexOutOfRange
                | gatewayFound # _ \<Rightarrow>
                    Inr (Some \<lparr>gw_ID = Some (vgw_ID gatewayFound),
                              gw_Name = Some (vgw_Name gatewayFound),
                              gw_Zone = Some (vgw_Zone gatewayFound),
                              gw_Tags = vgw_Tags gatewayFound,
                              gw_Lifecycle = gw_Lifecycle g\<rparr>)))"

text \<open>The public addresses of the load balancer that are not IPv6, in order.\<close>

fun lbPublicIPv4 :: "(string \<Rightarrow> bool) \<Rightarrow> lb_IP list \<Rightarrow> string list" where
  "lbPublicIPv4 isV6 [] = []"
| "lbPublicIPv4 isV6 (ip # ips) =
     (if isV6 (IPAddress ip) then lbPublicIPv4 isV6 ips
      else IPAddress ip # lbPublicIPv4 isV6 ips)"

definition LoadBalancer_Find ::
  "'s ScwCloud \<Rightarrow> LoadBalancer \<Rightarrow> 's \<Rightarrow> error + LoadBalancer option" where
  "LoadBalancer_Find cloud l s =
     (case ListLBs (LBService cloud) (ListLBsRequest (Zone cloud) (lb_Name l)) s of
        Inl err \<Rightarrow> Inl (Errorf ''getting load-balancer %s'' (Some err))
      | Inr lbResponse \<Rightarrow>
          if lbs_TotalCount lbResponse \<noteq> 1 then Inr None
          else (case LBs lbResponse of
                  [] \<Rightarrow> Inl indexOutOfRange
                | loadBalancer # _ \<Rightarrow>
          (case ZoneRegion cloud (ValueOf (lb_Zone l)) of
             Inl err \<Rightarrow> Inl (Errorf ''finding load-balancer's region'' (Some err))
           | Inr region \<Rightarrow>
          (case lb_PrivateNetwork l of
             None \<Rightarrow> Inl nilPointerDereference
           | Some privateNetwork \<Rightarrow>
          (case IPAM_ListIPs cloud
                  (ListIPsRequest region (pn_ID privateNetwork) (Some (llb_ID loadBalancer))
                     (Some False)) s of
             Inl err \<Rightarrow> Inl (Errorf ''listing load-balancer's IPs'' (Some err))
           | Inr ips \<Rightarrow>
               Inr (Some \<lparr>lb_ID = Some (llb_ID loadBalancer),
                         lb_Name = Some (llb_Name loadBalancer),
                         lb_Zone = Some (llb_Zone loadBalancer),
                         lb_Tags = llb_Tags loadBalancer,
                         lb_Type = [],
                         lb_LBAddresses =
                           map ipam_Address ips @
                           lbPublicIPv4 (IsIPv6String cloud) (llb_IP loadBalancer),
                         lb_Description = [],
                         lb_SslCompatibilityLevel = [],
                         lb_WellKnownServices = lb_WellKnownServices l,
                         lb_ForAPIServer = lb_ForAPIServer l,
                         lb_Lifecycle = lb_Lifecycle l,
                         lb_PrivateNetwork = None\<rparr>))))))"



section \<open>Rendering against the live API\<close>

text \<open>
  The calls a render issues that create, attach, update or wait are recorded, in order,
  beside the state of the cloud.
\<close>

datatype api_call =
    CallCreateGatewayNetwork CreateGatewayNetworkRequest
  | CallWaitForGatewayNetwork WaitForGatewayNetworkRequest
  | CallCreatePATRule CreatePATRuleRequest
  | CallCreateGateway CreateGatewayRequest
  | CallWaitForGateway WaitForGatewayRequest
  | CallCreateLB CreateLBRequest
  | CallWaitForLb WaitForLBRequest
  | CallAttachPrivateNetwork AttachPrivateNetworkRequest
  | CallUpdateLB UpdateLBRequest
  | CallCreatePrivateNIC CreatePrivateNICRequest
  | CallWaitForPrivateNIC WaitForPrivateNICRequest
  | CallUpdatePrivateNIC UpdatePrivateNICRequest
  | CallUpdateDNSZoneRecords UpdateDNSZoneRecordsRequest

record 's world =
  cloudState :: 's
  calls :: "api_call list"

definition invoke ::
  "('req \<Rightarrow> 's \<Rightarrow> (error + 'resp) \<times> 's) \<Rightarrow> ('req \<Rightarrow> api_call) \<Rightarrow> 'req \<Rightarrow> 's world \<Rightarrow>
   (error + 'resp) \<times> 's world" where
  "invoke operation call req w =
     (case operation req (cloudState w) of
        (r, s') \<Rightarrow> (r, \<lparr>cloudState = s', calls = calls w @ [call req]\<rparr>))"

definition GatewayDefaultType :: string where
  "GatewayDefaultType = ''VPC-GW-S''"

text \<open>
  \<open>RenderScw(t, actual, expected, changes)\<close> returns an error and mutates \<open>expected\<close>
  in place; the model returns the error, \<open>expected\<close> as the render leaves it, and the
  world. \<open>expected\<close> is the task being rendered.
\<close>

definition Gateway_RenderScw ::
  "'s ScwCloud \<Rightarrow> Gateway option \<Rightarrow> Gateway \<Rightarrow> Gateway option \<Rightarrow> 's world \<Rightarrow>
   error option \<times> Gateway \<times> 's world" where
  "Gateway_RenderScw cloud actual expected changes w =
     (if actual \<noteq> None then (None, expected, w)
      else
        let zone = ValueOf (gw_Zone expected) in
        case invoke (CreateGateway (GatewayService cloud)) CallCreateGateway
               (CreateGatewayRequest zone (ValueOf (gw_Name expected)) (gw_Tags expected)
                  GatewayDefaultType True 1042) w of
          (Inl err, w1) \<Rightarrow> (Some (Errorf ''creating gateway'' (Some err)), expected, w1)
        | (Inr gatewayCreated, w1) \<Rightarrow>
            (case invoke (WaitForGateway (GatewayService cloud)) CallWaitForGateway
                    (WaitForGatewayRequest (vgw_ID gatewayCreated) zone) w1 of
               (Inl err, w2) \<Rightarrow> (Some (Errorf ''waiting for gateway'' (Some err)), expected, w2)
             | (Inr _, w2) \<Rightarrow>
                 (None, expected\<lparr>gw_ID := Some (vgw_ID gatewayCreated)\<rparr>, w2)))"

text \<open>
  \<open>getAllNodesIPs\<close>: the private IPs of the cluster's servers that are not workers.
\<close>

fun serverPrivateIPs ::
  "'s ScwCloud \<Rightarrow> 's \<Rightarrow> instance_Server list \<Rightarrow> string list \<Rightarrow> error + string list" where
  "serverPrivateIPs cloud s [] nodePrivateIPs = Inr nodePrivateIPs"
| "serverPrivateIPs cloud s (server # servers) nodePrivateIPs =
     (if InstanceRoleFromTags (srv_Tags server) = TagRoleWorker
      then serverPrivateIPs cloud s servers nodePrivateIPs
      else case GetServerPrivateIP cloud (srv_ID server) (srv_Zone server) s of
             Inl err \<Rightarrow>
               Inl (Errorf ''getting IP of server %s for public gateway's NAT rules'' (Some err))
           | Inr ip \<Rightarrow> serverPrivateIPs cloud s servers (nodePrivateIPs @ [ip]))"

definition getAllNodesIPs :: "'s ScwCloud \<Rightarrow> Gateway \<Rightarrow> 's \<Rightarrow> error + string list" where
  "getAllNodesIPs scwCloud gw s =
     (case GetClusterServers scwCloud (ClusterNameFromTags (gw_Tags gw)) None s of
        Inl err \<Rightarrow>
          Inl (Errorf ''getting cluster servers for public gateway's NAT rules'' (Some err))
      | Inr servers \<Rightarrow> serverPrivateIPs scwCloud s servers [])"

definition PATRuleProtocolBoth :: string where
  "PATRuleProtocolBoth = ''both''"

text \<open>The loop of \<open>GatewayNetwork.RenderScw\<close> that creates one PAT rule per node IP.\<close>

fun createPATRules ::
  "'s ScwCloud \<Rightarrow> string \<Rightarrow> string \<Rightarrow> string list \<Rightarrow> 's world \<Rightarrow> error option \<times> 's world" where
  "createPATRules cloud zone gatewayID [] w = (None, w)"
| "createPATRules cloud zone gatewayID (nodeIP # nodesIPs) w =
     (case invoke (CreatePATRule (GatewayService cloud)) CallCreatePATRule
             (CreatePATRuleRequest zone gatewayID 0 nodeIP 0 PATRuleProtocolBoth) w of
        (Inl err, w1) \<Rightarrow> (Some (Errorf ''creating NAT rule for public gateway %s'' None), w1)
      | (Inr _, w1) \<Rightarrow> createPATRules cloud zone gatewayID nodesIPs w1)"

definition GatewayNetwork_RenderScw ::
  "'s ScwCloud \<Rightarrow> GatewayNetwork option \<Rightarrow> GatewayNetwork \<Rightarrow> GatewayNetwork option \<Rightarrow> 's world \<Rightarrow>
   error option \<times> GatewayNetwork \<times> 's world" where
  "GatewayNetwork_RenderScw cloud actual expected changes w =
     (if actual \<noteq> None then (None, expected, w)
      else
        let zone = ValueOf (gwn_Zone expected) in
        case gwn_Gateway expected of
          None \<Rightarrow> (Some nilPointerDereference, expected, w)
        | Some gateway \<Rightarrow>
        (case gwn_PrivateNetwork expected of
          None \<Rightarrow> (Some nilPointerDereference, expected, w)
        | Some privateNetwork \<Rightarrow>
        (case invoke (CreateGatewayNetwork (GatewayService cloud)) CallCreateGatewayNetwork
                (CreateGatewayNetworkRequest zone (ValueOf (gw_ID gateway))
                   (ValueOf (pn_ID privateNetwork)) True True True) w of
          (Inl err, w1) \<Rightarrow> (Some (Errorf ''creating gateway network'' (Some err)), expected, w1)
        | (Inr gwnCreated, w1) \<Rightarrow>
        (case invoke (WaitForGatewayNetwork (GatewayService cloud)) CallWaitForGatewayNetwork
                (WaitForGatewayNetworkRequest (vgwn_ID gwnCreated) zone) w1 of
          (Inl err, w2) \<Rightarrow> (Some (ErrorfText ''waiting for gateway'' err), expected, w2)
        | (Inr _, w2) \<Rightarrow>
            let expected' = expected\<lparr>gwn_ID := Some (vgwn_ID gwnCreated)\<rparr> in
            (case getAllNodesIPs cloud gateway (cloudState w2) of
               Inl err \<Rightarrow> (Some err, expected', w2)
             | Inr nodesIPs \<Rightarrow>
                 (case createPATRules cloud zone (ValueOf (gw_ID gateway)) nodesIPs w2 of
                    (err, w3) \<Rightarrow> (err, expected', w3)))))))"

definition LoadBalancer_RenderScw ::
  "'s ScwCloud \<Rightarrow> LoadBalancer option \<Rightarrow> LoadBalancer \<Rightarrow> LoadBalancer option \<Rightarrow> 's world \<Rightarrow>
   error option \<times> LoadBalancer \<times> 's world" where
  "LoadBalancer_RenderScw cloud actual expected changes w =
     (case actual of
        Some act \<Rightarrow>
          (if changes \<noteq> None \<or> length (lb_Tags act) \<noteq> length (lb_Tags expected) then
             (case invoke (UpdateLB (LBService cloud)) CallUpdateLB
                     (UpdateLBRequest (ValueOf (lb_Zone act)) (ValueOf (lb_ID act))
                        (ValueOf (lb_Name act)) (lb_Description expected)
                        (lb_SslCompatibilityLevel expected) (lb_Tags expected)) w of
                (Inl err, w1) \<Rightarrow>
                  (Some (Errorf ''updatings tags for load-balancer %q'' (Some err)), expected, w1)
              | (Inr _, w1) \<Rightarrow>
                  (None, expected\<lparr>lb_ID := lb_ID act, lb_LBAddresses := lb_LBAddresses act\<rparr>, w1))
           else (None, expected\<lparr>lb_ID := lb_ID act, lb_LBAddresses := lb_LBAddresses act\<rparr>, w))
      | None \<Rightarrow>
          let zone = ValueOf (lb_Zone expected) in
          case invoke (CreateLB (LBService cloud)) CallCreateLB
                 (CreateLBRequest zone (ValueOf (lb_Name expected)) (lb_Tags expected)
                    (lb_Type expected) True) w of
            (Inl err, w1) \<Rightarrow> (Some (Errorf ''creating load-balancer'' (Some err)), expected, w1)
          | (Inr lbCreated, w1) \<Rightarrow>
          (case invoke (WaitForLb (LBService cloud)) CallWaitForLb
                  (WaitForLBRequest (llb_ID lbCreated) zone) w1 of
            (Inl err, w2) \<Rightarrow> (Some (Errorf ''waiting for load-balancer %s'' (Some err)), expected, w2)
          | (Inr _, w2) \<Rightarrow>
          (case lb_PrivateNetwork expected of
            None \<Rightarrow> (Some nilPointerDereference, expected, w2)
          | Some privateNetwork \<Rightarrow>
          (case invoke (AttachPrivateNetwork (LBService cloud)) CallAttachPrivateNetwork
                  (AttachPrivateNetworkRequest zone (llb_ID lbCreated)
                     (ValueOf (pn_ID privateNetwork))) w2 of
            (Inl err, w3) \<Rightarrow>
              (Some (Errorf ''attaching load-balancer to private network'' None), expected, w3)
          | (Inr _, w3) \<Rightarrow>
          (case invoke (WaitForLb (LBService cloud)) CallWaitForLb
                  (WaitForLBRequest (llb_ID lbCreated) zone) w3 of
            (Inl err, w4) \<Rightarrow> (Some (Errorf ''waiting for load-balancer %s'' (Some err)), expected, w4)
          | (Inr _, w4) \<Rightarrow>
              (None,
               expected\<lparr>lb_ID := Some (llb_ID lbCreated),
                        lb_LBAddresses := map IPAddress (llb_IP lbCreated)\<rparr>,
               w4))))))"









section \<open>Sample clouds\<close>

text \<open>
  A cloud that ignores its state, on which the properties below are evaluated. Every listing
  reports \<open>n\<close> matching resources, or fails with \<open>listErr\<close>; \<open>servers\<close> are the cluster's
  servers; every create, attach and update succeeds; every wait succeeds or fails with
  \<open>waitErr\<close>.
\<close>

definition sampleServer :: instance_Server where
  "sampleServer = \<lparr>srv_ID = ''srv-1'', srv_Name = ''control-plane-1'', srv_Zone = ''fr-par-1'',
     srv_Tags = [''noprefix=kops.k8s.io/role=ControlPlane''], srv_PrivateNics = []\<rparr>"

definition newGatewayNetwork :: vpcgw_GatewayNetwork where
  "newGatewayNetwork = \<lparr>vgwn_ID = ''gwn-new'', vgwn_Zone = ''fr-par-1''\<rparr>"

definition newGateway :: vpcgw_Gateway where
  "newGateway = \<lparr>vgw_ID = ''gw-new'', vgw_Name = ''gateway'', vgw_Zone = ''fr-par-1'',
     vgw_Tags = []\<rparr>"

definition newLB :: lb_LB where
  "newLB = \<lparr>llb_ID = ''lb-new'', llb_Name = ''api'', llb_Zone = ''fr-par-1'', llb_Tags = [],
     llb_IP = [\<lparr>IPAddress = ''51.15.0.1''\<rparr>]\<rparr>"

definition existingRecord :: domain_Record where
  "existingRecord = \<lparr>rec_ID = ''rec-1'', rec_Name = ''api'', rec_Data = ''10.0.0.1'',
     rec_TTL = 60, rec_Type = ''A''\<rparr>"

definition answer :: "error option \<Rightarrow> 'a \<Rightarrow> error + 'a" where
  "answer failure r = (case failure of Some err \<Rightarrow> Inl err | None \<Rightarrow> Inr r)"

definition sampleCloud ::
  "nat \<Rightarrow> instance_Server list \<Rightarrow> error option \<Rightarrow> error option \<Rightarrow> 's ScwCloud" where
  "sampleCloud n servers listErr waitErr =
     \<lparr>Zone = ''fr-par-1'',
      GatewayService =
        \<lparr>ListGatewayNetworks = (\<lambda>req s. answer listErr
            \<lparr>GatewayNetworks = replicate n newGatewayNetwork, gwns_TotalCount = n\<rparr>),
         ListGateways = (\<lambda>req s. answer listErr
            \<lparr>Gateways = replicate n newGateway, gws_TotalCount = n\<rparr>),
         CreateGatewayNetwork = (\<lambda>req s. (Inr newGatewayNetwork, s)),
         WaitForGatewayNetwork = (\<lambda>req s. (answer waitErr newGatewayNetwork, s)),
         CreatePATRule = (\<lambda>req s. (Inr (), s)),
         CreateGateway = (\<lambda>req s. (Inr newGateway, s)),
         WaitForGateway = (\<lambda>req s. (answer waitErr newGateway, s))\<rparr>,
      LBService =
        \<lparr>ListLBs = (\<lambda>req s. answer listErr \<lparr>LBs = replicate n newLB, lbs_TotalCount = n\<rparr>),
         CreateLB = (\<lambda>req s. (Inr newLB, s)),
         WaitForLb = (\<lambda>req s. (answer waitErr newLB, s)),
         AttachPrivateNetwork = (\<lambda>req s. (Inr (), s)),
         UpdateLB = (\<lambda>req s. (Inr newLB, s))\<rparr>,
      InstanceService =
        \<lparr>ListServers = (\<lambda>req s. answer listErr servers),
         ListPrivateNICs = (\<lambda>req s. answer listErr
            (replicate n \<lparr>pnic_ID = ''nic-1'', pnic_Tags = []\<rparr>)),
         CreatePrivateNIC = (\<lambda>req s. (Inr \<lparr>pnic_ID = ''nic-new'', pnic_Tags = []\<rparr>, s)),
         WaitForPrivateNIC = (\<lambda>req s.
            (answer waitErr \<lparr>pnic_ID = ''nic-new'', pnic_Tags = []\<rparr>, s)),
         UpdatePrivateNIC = (\<lambda>req s. (Inr \<lparr>pnic_ID = ''nic-1'', pnic_Tags = []\<rparr>, s))\<rparr>,
      IPAM_ListIPs = (\<lambda>req s. answer listErr []),
      Domain_ListDNSZoneRecords = (\<lambda>req s. answer listErr
         \<lparr>Records = replicate n existingRecord, recs_TotalCount = n\<rparr>),
      Domain_UpdateDNSZoneRecords = (\<lambda>req s. (Inr (), s)),
      GetServerPrivateIP = (\<lambda>serverID zone s. answer listErr ''10.0.0.2''),
      ZoneRegion = (\<lambda>zone. Inr ''fr-par''),
      IsIPv6String = (\<lambda>ip. False)\<rparr>"

definition unavailable :: error where
  "unavailable = CloudError ''503 Service Unavailable''"

definition world0 :: "unit world" where
  "world0 = \<lparr>cloudState = (), calls = []\<rparr>"

text \<open>A cloud with no matching resource, a cloud whose listings fail, and a cloud where
  only the listing of private NICs fails.\<close>

definition quietCloud :: "unit ScwCloud" where
  "quietCloud = sampleCloud 0 [sampleServer] None None"




definition crowdedCloud :: "unit ScwCloud" where
  "crowdedCloud = sampleCloud 2 [sampleServer] None None"



section \<open>Dependencies\<close>

text \<open>
  \<open>fi.CloudupTask\<close> is an interface; the task kinds met here are its cases. A Go map is
  a list of key-value pairs with distinct keys, in the order in which this run's
  \<open>range\<close> visits them (the order is not fixed by the language).
\<close>

datatype CloudupTask =
    TaskGateway Gateway
  | TaskGatewayNetwork GatewayNetwork
  | TaskDNSRecord DNSRecord
  | TaskLoadBalancer LoadBalancer
  | TaskPrivateNIC PrivateNIC
  | TaskPrivateNetwork PrivateNetwork
  | TaskInstance Instance

fun isPrivateNetwork :: "CloudupTask \<Rightarrow> bool" where
  "isPrivateNetwork (TaskPrivateNetwork t) = True"
| "isPrivateNetwork t = False"

fun isGateway :: "CloudupTask \<Rightarrow> bool" where
  "isGateway (TaskGateway t) = True"
| "isGateway t = False"

fun isInstance :: "CloudupTask \<Rightarrow> bool" where
  "isInstance (TaskInstance t) = True"
| "isInstance t = False"

fun GatewayNetwork_GetDependencies ::
  "GatewayNetwork \<Rightarrow> (string \<times> CloudupTask) list \<Rightarrow> CloudupTask list" where
  "GatewayNetwork_GetDependencies g [] = []"
| "GatewayNetwork_GetDependencies g ((name, task) # tasks) =
     (if isPrivateNetwork task then [task] else []) @
     (if isGateway task then [task] else []) @
     GatewayNetwork_GetDependencies g tasks"

fun LoadBalancer_GetDependencies ::
  "LoadBalancer \<Rightarrow> (string \<times> CloudupTask) list \<Rightarrow> CloudupTask list" where
  "LoadBalancer_GetDependencies l [] = []"
| "LoadBalancer_GetDependencies l ((name, task) # tasks) =
     (if isPrivateNetwork task then [task] else []) @
     LoadBalancer_GetDependencies l tasks"

fun PrivateNIC_GetDependencies ::
  "PrivateNIC \<Rightarrow> (string \<times> CloudupTask) list \<Rightarrow> CloudupTask list" where
  "PrivateNIC_GetDependencies p [] = []"
| "PrivateNIC_GetDependencies p ((name, task) # tasks) =
     (if isInstance task then [task] else []) @
     (if isPrivateNetwork task then [task] else []) @
     PrivateNIC_GetDependencies p tasks"

definition otherPrivateNetwork :: PrivateNetwork where
  "otherPrivateNetwork = \<lparr>pn_ID = Some ''pn-2'', pn_Name = Some ''other-network''\<rparr>"

definition sampleTasks :: "(string \<times> CloudupTask) list" where
  "sampleTasks =
     [(''PrivateNetwork/network'', TaskPrivateNetwork samplePrivateNetwork),
      (''Gateway/gateway'', TaskGateway sampleGateway),
      (''PrivateNetwork/other-network'', TaskPrivateNetwork otherPrivateNetwork),
      (''LoadBalancer/api'', TaskLoadBalancer sampleLoadBalancer)]"

section \<open>The declarative-file target\<close>

text \<open>
  The writer of HCL elements (package \<open>terraformWriter\<close>) is not among the sources; what
  the target asks of it is a parameter: \<open>quote\<close> is the formatting verb \<open>%q\<close>,
  \<open>writeElement v header\<close> are the bytes that \<open>toElement(v).Write(buf, 0, header)\<close>
  appends (\<open>v\<close> is the result of the map lookup, \<open>None\<close> for a missing key),
  \<open>writeLocals locals\<close> those of \<open>mapToElement(locals).ToObject().Write(buf, 0, "locals")\<close>
  and \<open>writeOutput v header\<close> those of
  \<open>toElement(&output{Value: v}).Write(buf, 0, header)\<close>.
\<close>

record ('b, 'l) terraformWriter =
  quote :: "string \<Rightarrow> string"
  writeElement :: "'b option \<Rightarrow> string \<Rightarrow> string"
  writeLocals :: "(string \<rightharpoonup> 'l) \<Rightarrow> string"
  writeOutput :: "'l option \<Rightarrow> string \<Rightarrow> string"
  LiteralListExpression :: "'l list \<Rightarrow> 'l"

record 'l OutputValue =
  Value :: "'l option"
  ValueArray :: "'l list"

text \<open>The inner loop of \<open>writeResources\<close> and \<open>writeDataSources\<close>, over the sorted names.\<close>

fun writeNamed ::
  "('b, 'l) terraformWriter \<Rightarrow> string \<Rightarrow> string \<Rightarrow> (string \<times> 'b) list \<Rightarrow> string list \<Rightarrow>
   string \<Rightarrow> string" where
  "writeNamed W kind resourceType resources [] buf = buf"
| "writeNamed W kind resourceType resources (resourceName # resourceNames) buf =
     writeNamed W kind resourceType resources resourceNames
       (buf @ writeElement W (map_of resources resourceName)
                (kind @ '' '' @ quote W resourceType @ '' '' @ quote W resourceName) @
        [CHR 0x0A])"

text \<open>The outer loop, over the sorted types.\<close>

fun writeTyped ::
  "('b, 'l) terraformWriter \<Rightarrow> string \<Rightarrow> (string \<times> (string \<times> 'b) list) list \<Rightarrow> string list \<Rightarrow>
   string \<Rightarrow> string" where
  "writeTyped W kind byType [] buf = buf"
| "writeTyped W kind byType (resourceType # resourceTypes) buf =
     (let resources = (case map_of byType resourceType of None \<Rightarrow> [] | Some r \<Rightarrow> r);
          resourceNames = sort (map fst resources)
      in writeTyped W kind byType resourceTypes
           (writeNamed W kind resourceType resources resourceNames buf))"

definition writeResources ::
  "('b, 'l) terraformWriter \<Rightarrow> string \<Rightarrow> (string \<times> (string \<times> 'b) list) list \<Rightarrow> string" where
  "writeResources W buf resourcesByType =
     writeTyped W ''resource'' resourcesByType (sort (map fst resourcesByType)) buf"

definition writeDataSources ::
  "('b, 'l) terraformWriter \<Rightarrow> string \<Rightarrow> (string \<times> (string \<times> 'b) list) list \<Rightarrow> string" where
  "writeDataSources W buf dataSourcesByType =
     writeTyped W ''data'' dataSourcesByType (sort (map fst dataSourcesByType)) buf"

text \<open>The value stored in \<open>locals\<close> for an output: its \<open>Value\<close>, or the list expression of
  its \<open>ValueArray\<close> when \<open>Value\<close> is nil.\<close>

definition localValue :: "('b, 'l) terraformWriter \<Rightarrow> 'l OutputValue \<Rightarrow> 'l" where
  "localValue W v =
     (case Value v of
        Some literal \<Rightarrow> literal
      | None \<Rightarrow> LiteralListExpression W (ValueArray v))"

text \<open>The first loop of \<open>writeLocalsOutputs\<close>: it fills \<open>locals\<close> and \<open>outputNames\<close>.\<close>

fun collectLocals ::
  "('b, 'l) terraformWriter \<Rightarrow> (string \<times> 'l OutputValue) list \<Rightarrow> (string \<rightharpoonup> 'l) \<Rightarrow> string list \<Rightarrow>
   error + (string \<rightharpoonup> 'l) \<times> string list" where
  "collectLocals W [] locals outputNames = Inr (locals, outputNames)"
| "collectLocals W ((k, v) # outputs) locals outputNames =
     (if locals k \<noteq> None then Inl (Panic ''duplicate variable found: %s'')
      else collectLocals W outputs
             (locals(k \<mapsto> localValue W v)) (outputNames @ [k]))"

fun writeOutputs ::
  "('b, 'l) terraformWriter \<Rightarrow> (string \<rightharpoonup> 'l) \<Rightarrow> string list \<Rightarrow> string \<Rightarrow> string" where
  "writeOutputs W locals [] buf = buf"
| "writeOutputs W locals (tfName # outputNames) buf =
     writeOutputs W locals outputNames
       (buf @ writeOutput W (locals tfName) (''output '' @ quote W tfName) @ [CHR 0x0A])"

definition writeLocalsOutputs ::
  "('b, 'l) terraformWriter \<Rightarrow> string \<Rightarrow> (string \<times> 'l OutputValue) list \<Rightarrow> error + string" where
  "writeLocalsOutputs W buf outputs =
     (if length outputs = 0 then Inr buf
      else case collectLocals W outputs Map.empty [] of
             Inl err \<Rightarrow> Inl err
           | Inr (locals, outputNames) \<Rightarrow>
               Inr (writeOutputs W locals (sort outputNames)
                      (buf @ writeLocals W locals @ [CHR 0x0A])))"

text \<open>
  Two runs see the same Go map when their visiting orders list the same entries, each
  key once. For a map of maps the inner maps are compared in the same way.
\<close>

definition sameMap :: "('k \<times> 'v) list \<Rightarrow> ('k \<times> 'v) list \<Rightarrow> bool" where
  "sameMap m1 m2 \<longleftrightarrow> distinct (map fst m1) \<and> distinct (map fst m2) \<and> set m1 = set m2"

definition sameNestedMap ::
  "('k \<times> ('j \<times> 'v) list) list \<Rightarrow> ('k \<times> ('j \<times> 'v) list) list \<Rightarrow> bool" where
  "sameNestedMap m1 m2 \<longleftrightarrow>
     distinct (map fst m1) \<and> distinct (map fst m2) \<and> set (map fst m1) = set (map fst m2) \<and>
     (\<forall>k\<in>set (map fst m1).
        case (map_of m1 k, map_of m2 k) of
          (Some r1, Some r2) \<Rightarrow> sameMap r1 r2
        | _ \<Rightarrow> False)"

text \<open>The resources of a map of maps as (type, name) pairs, types sorted, names sorted
  within a type.\<close>

definition emissionOrder :: "(string \<times> (string \<times> 'b) list) list \<Rightarrow> (string \<times> string) list" where
  "emissionOrder byType =
     concat (map (\<lambda>t. map (Pair t)
                         (sort (map fst (case map_of byType t of None \<Rightarrow> [] | Some r \<Rightarrow> r))))
                 (sort (map fst byType)))"

definition block ::
  "('b, 'l) terraformWriter \<Rightarrow> string \<Rightarrow> (string \<times> (string \<times> 'b) list) list \<Rightarrow> string \<times> string \<Rightarrow>
   string" where
  "block W kind byType = (\<lambda>(t, n).
     writeElement W (map_of (case map_of byType t of None \<Rightarrow> [] | Some r \<Rightarrow> r) n)
       (kind @ '' '' @ quote W t @ '' '' @ quote W n) @ [CHR 0x0A])"

text \<open>A writer and two visiting orders of the same maps, on which the writers are
  evaluated.\<close>

definition sampleWriter :: "(string, string) terraformWriter" where
  "sampleWriter =
     \<lparr>quote = (\<lambda>s. [CHR 0x22] @ s @ [CHR 0x22]),
      writeElement = (\<lambda>v header. header @ '' = '' @ (case v of None \<Rightarrow> ''null'' | Some b \<Rightarrow> b)),
      writeLocals = (\<lambda>locals. ''locals''),
      writeOutput = (\<lambda>v header. header @ '' = '' @ (case v of None \<Rightarrow> ''null'' | Some l \<Rightarrow> l)),
      LiteralListExpression = concat\<rparr>"

definition resourcesFirstRun :: "(string \<times> (string \<times> string) list) list" where
  "resourcesFirstRun =
     [(''scaleway_lb'', [(''web'', ''w''), (''api'', ''a'')]),
      (''scaleway_domain_record'', [(''api'', ''r'')])]"

definition resourcesSecondRun :: "(string \<times> (string \<times> string) list) list" where
  "resourcesSecondRun =
     [(''scaleway_domain_record'', [(''api'', ''r'')]),
      (''scaleway_lb'', [(''api'', ''a''), (''web'', ''w'')])]"

definition outputsFirstRun :: "(string \<times> string OutputValue) list" where
  "outputsFirstRun =
     [(''region'', \<lparr>Value = Some ''fr-par'', ValueArray = []\<rparr>),
      (''cluster_name'', \<lparr>Value = None, ValueArray = [''a'', ''b'']\<rparr>)]"

definition outputsSecondRun :: "(string \<times> string OutputValue) list" where
  "outputsSecondRun =
     [(''cluster_name'', \<lparr>Value = None, ValueArray = [''a'', ''b'']\<rparr>),
      (''region'', \<lparr>Value = Some ''fr-par'', ValueArray = []\<rparr>)]"

section \<open>The DNS record changeset\<close>

text \<open>
  The changeset of the Scaleway DNS provider. A record set has a name that contains the
  zone, its data, a TTL and a type. \<open>dns.EnsureDotSuffix\<close> is not among the sources and is
  a parameter of \<open>Apply\<close>.
\<close>

record resourceRecordSet =
  rrs_name :: string
  rrs_data :: "string list"
  rrs_ttl :: int
  rrs_recordType :: string

record resourceRecordChangeset =
  zoneName :: string
  additions :: "resourceRecordSet list"
  removals :: "resourceRecordSet list"
  upserts :: "resourceRecordSet list"

record 's DomainAPI =
  ListDNSZoneRecords :: "ListDNSZoneRecordsRequest \<Rightarrow> 's \<Rightarrow> (error + ListDNSZoneRecordsResponse) \<times> 's"
  UpdateDNSZoneRecords :: "UpdateDNSZoneRecordsRequest \<Rightarrow> 's \<Rightarrow> (error + unit) \<times> 's"

text \<open>Every call to the domain API is recorded, in order.\<close>

datatype domain_call =
    DomainListDNSZoneRecords ListDNSZoneRecordsRequest
  | DomainUpdateDNSZoneRecords UpdateDNSZoneRecordsRequest

record 's dnsWorld =
  dnsState :: 's
  dnsCalls :: "domain_call list"

definition HasSuffix :: "string \<Rightarrow> string \<Rightarrow> bool" where
  "HasSuffix s suffix \<longleftrightarrow>
     length suffix \<le> length s \<and> drop (length s - length suffix) s = suffix"

definition TrimSuffix :: "string \<Rightarrow> string \<Rightarrow> string" where
  "TrimSuffix s suffix =
     (if HasSuffix s suffix then take (length s - length suffix) s else s)"

definition IsEmpty :: "resourceRecordChangeset \<Rightarrow> bool" where
  "IsEmpty r \<longleftrightarrow> length (additions r) = 0 \<and> length (removals r) = 0 \<and> length (upserts r) = 0"

definition listRecords ::
  "'s DomainAPI \<Rightarrow> string \<Rightarrow> 's dnsWorld \<Rightarrow> (error + domain_Record list) \<times> 's dnsWorld" where
  "listRecords api zone w =
     (case ListDNSZoneRecords api (ListDNSZoneRecordsRequest zone [] []) (dnsState w) of
        (r, s') \<Rightarrow>
          (case r of
             Inl err \<Rightarrow> Inl (Errorf ''failed to list records'' (Some err))
           | Inr records \<Rightarrow> Inr (Records records),
           \<lparr>dnsState = s',
            dnsCalls = dnsCalls w @
              [DomainListDNSZoneRecords (ListDNSZoneRecordsRequest zone [] [])]\<rparr>))"

text \<open>The test of \<open>Apply\<close> that an existing record is the one a record set names:
  same name once the zone is appended, same type.\<close>

definition sameNameAndType ::
  "(string \<Rightarrow> string) \<Rightarrow> string \<Rightarrow> resourceRecordSet \<Rightarrow> domain_Record \<Rightarrow> bool" where
  "sameNameAndType EnsureDotSuffix zone rrset record \<longleftrightarrow>
     rec_Name record @ ''.'' @ zone @ ''.'' = EnsureDotSuffix (rrs_name rrset) \<and>
     rrs_recordType rrset = rec_Type record"

text \<open>\<open>uint32(rrset.Ttl())\<close>.\<close>

definition ttl32 :: "resourceRecordSet \<Rightarrow> nat" where
  "ttl32 rrset = nat (rrs_ttl rrset mod 2 ^ 32)"

text \<open>The change that sets an existing record to one datum of an upserted record set.\<close>

definition setChange :: "resourceRecordSet \<Rightarrow> string \<Rightarrow> domain_Record \<Rightarrow> RecordChange" where
  "setChange rrset rrdata record =
     ChangeSet (rec_ID record)
       [\<lparr>rec_ID = [], rec_Name = rec_Name record, rec_Data = rrdata,
         rec_TTL = ttl32 rrset, rec_Type = rrs_recordType rrset\<rparr>]"

text \<open>The loop over the existing records for one datum of an upserted record set.\<close>

fun scanRecords ::
  "(string \<Rightarrow> string) \<Rightarrow> string \<Rightarrow> resourceRecordSet \<Rightarrow> string \<Rightarrow> domain_Record list \<Rightarrow>
   bool \<times> RecordChange list \<Rightarrow> bool \<times> RecordChange list" where
  "scanRecords E zone rrset rrdata [] (found, updateRecordsRequest) =
     (found, updateRecordsRequest)"
| "scanRecords E zone rrset rrdata (record # records) (found, updateRecordsRequest) =
     (if sameNameAndType E zone rrset record
      then scanRecords E zone rrset rrdata records
             (True, updateRecordsRequest @ [setChange rrset rrdata record])
      else scanRecords E zone rrset rrdata records (found, updateRecordsRequest))"

text \<open>The loop over the data of one upserted record set.\<close>

fun upsertData ::
  "(string \<Rightarrow> string) \<Rightarrow> string \<Rightarrow> domain_Record list \<Rightarrow> resourceRecordSet \<Rightarrow> string list \<Rightarrow>
   resourceRecordSet list \<times> RecordChange list \<Rightarrow> resourceRecordSet list \<times> RecordChange list" where
  "upsertData E zone records rrset [] (adds, updateRecordsRequest) =
     (adds, updateRecordsRequest)"
| "upsertData E zone records rrset (rrdata # rrdatas) (adds, updateRecordsRequest) =
     (case scanRecords E zone rrset rrdata records (False, updateRecordsRequest) of
        (found, updateRecordsRequest') \<Rightarrow>
          upsertData E zone records rrset rrdatas
            (if found = False then adds @ [rrset] else adds, updateRecordsRequest'))"

text \<open>The loop over the upserted record sets.\<close>

fun upsertAll ::
  "(string \<Rightarrow> string) \<Rightarrow> string \<Rightarrow> domain_Record list \<Rightarrow> resourceRecordSet list \<Rightarrow>
   resourceRecordSet list \<times> RecordChange list \<Rightarrow> resourceRecordSet list \<times> RecordChange list" where
  "upsertAll E zone records [] st = st"
| "upsertAll E zone records (rrset # rrsets) st =
     upsertAll E zone records rrsets (upsertData E zone records rrset (rrs_data rrset) st)"

text \<open>The records to add for one record set.\<close>

definition recordsOf :: "string \<Rightarrow> resourceRecordSet \<Rightarrow> domain_Record list" where
  "recordsOf zone rrset =
     (let recordName = TrimSuffix (rrs_name rrset) ''.'';
          recordName = TrimSuffix recordName (''.'' @ zone)
      in map (\<lambda>rrdata. \<lparr>rec_ID = [], rec_Name = recordName, rec_Data = rrdata,
                         rec_TTL = ttl32 rrset, rec_Type = rrs_recordType rrset\<rparr>)
             (rrs_data rrset))"

text \<open>The loop over the additions: \<open>recordsToAdd\<close> is declared before the loop and grows
  from one record set to the next; each record set appends one change that holds the
  records collected so far.\<close>

fun addAll ::
  "string \<Rightarrow> resourceRecordSet list \<Rightarrow> domain_Record list \<times> RecordChange list \<Rightarrow>
   domain_Record list \<times> RecordChange list" where
  "addAll zone [] (recordsToAdd, updateRecordsRequest) = (recordsToAdd, updateRecordsRequest)"
| "addAll zone (rrset # rrsets) (recordsToAdd, updateRecordsRequest) =
     (let recordsToAdd' = recordsToAdd @ recordsOf zone rrset
      in addAll zone rrsets (recordsToAdd', updateRecordsRequest @ [ChangeAdd recordsToAdd']))"

text \<open>The loop over the existing records for one removed record set; \<open>rrset.Rrdatas()[0]\<close>
  is read when the names are equal.\<close>

fun removeScan ::
  "(string \<Rightarrow> string) \<Rightarrow> string \<Rightarrow> resourceRecordSet \<Rightarrow> domain_Record list \<Rightarrow> RecordChange list \<Rightarrow>
   error + RecordChange list" where
  "removeScan E zone rrset [] updateRecordsRequest = Inr updateRecordsRequest"
| "removeScan E zone rrset (record # records) updateRecordsRequest =
     (if rec_Name record @ ''.'' @ zone @ ''.'' = E (rrs_name rrset) then
        (case rrs_data rrset of
           [] \<Rightarrow> Inl indexOutOfRange
         | first # _ \<Rightarrow>
             if rec_Data record = first \<and> rrs_recordType rrset = rec_Type record
             then removeScan E zone rrset records
                    (updateRecordsRequest @ [ChangeDelete (rec_ID record)])
             else removeScan E zone rrset records updateRecordsRequest)
      else removeScan E zone rrset records updateRecordsRequest)"

fun removeAll ::
  "(string \<Rightarrow> string) \<Rightarrow> string \<Rightarrow> domain_Record list \<Rightarrow> resourceRecordSet list \<Rightarrow>
   RecordChange list \<Rightarrow> error + RecordChange list" where
  "removeAll E zone records [] updateRecordsRequest = Inr updateRecordsRequest"
| "removeAll E zone records (rrset # rrsets) updateRecordsRequest =
     (case removeScan E zone rrset records updateRecordsRequest of
        Inl err \<Rightarrow> Inl err
      | Inr updateRecordsRequest' \<Rightarrow> removeAll E zone records rrsets updateRecordsRequest')"

text \<open>
  \<open>Apply\<close> returns an error and leaves the changeset with its additions extended; the
  model returns the error, the changeset and the world.
\<close>

definition Apply ::
  "'s DomainAPI \<Rightarrow> (string \<Rightarrow> string) \<Rightarrow> resourceRecordChangeset \<Rightarrow> 's dnsWorld \<Rightarrow>
   error option \<times> resourceRecordChangeset \<times> 's dnsWorld" where
  "Apply api E r w =
     (if IsEmpty r then (None, r, w)
      else
        case listRecords api (zoneName r) w of
          (Inl err, w1) \<Rightarrow> (Some err, r, w1)
        | (Inr records, w1) \<Rightarrow>
            (case upsertAll E (zoneName r) records (upserts r) (additions r, []) of
               (adds, req1) \<Rightarrow>
                 let r' = r\<lparr>additions := adds\<rparr> in
                 (case addAll (zoneName r) adds ([], req1) of
                    (recordsToAdd, req2) \<Rightarrow>
                      (case removeAll E (zoneName r) records (removals r) req2 of
                         Inl err \<Rightarrow> (Some err, r', w1)
                       | Inr req3 \<Rightarrow>
                           (case UpdateDNSZoneRecords api
                                   (UpdateDNSZoneRecordsRequest (zoneName r) req3) (dnsState w1) of
                              (res, s2) \<Rightarrow>
                                ((case res of
                                    Inl err \<Rightarrow>
                                      Some (Errorf ''failed to apply resource record set'' (Some err))
                                  | Inr _ \<Rightarrow> None),
                                 r',
                                 \<lparr>dnsState = s2,
                                  dnsCalls = dnsCalls w1 @
                                    [DomainUpdateDNSZoneRecords
                                       (UpdateDNSZoneRecordsRequest (zoneName r) req3)]\<rparr>))))))"

text \<open>
  What \<open>Apply\<close> is shown to compute, written over the lists: the record sets that the
  upsert loop moves to the additions (one occurrence per datum of an upserted record set
  that no existing record matches), and the changes of the three loops.
\<close>

definition reclassified ::
  "(string \<Rightarrow> string) \<Rightarrow> string \<Rightarrow> domain_Record list \<Rightarrow> resourceRecordSet list \<Rightarrow>
   resourceRecordSet list" where
  "reclassified E zone records rrsets =
     [rrset. rrset \<leftarrow> rrsets, rrdata \<leftarrow> rrs_data rrset,
             \<not> list_ex (sameNameAndType E zone rrset) records]"

definition setChanges ::
  "(string \<Rightarrow> string) \<Rightarrow> string \<Rightarrow> domain_Record list \<Rightarrow> resourceRecordSet list \<Rightarrow>
   RecordChange list" where
  "setChanges E zone records rrsets =
     [setChange rrset rrdata record. rrset \<leftarrow> rrsets, rrdata \<leftarrow> rrs_data rrset,
             record \<leftarrow> records, sameNameAndType E zone rrset record]"

definition addChanges :: "string \<Rightarrow> resourceRecordSet list \<Rightarrow> RecordChange list" where
  "addChanges zone rrsets =
     map (\<lambda>i. ChangeAdd (concat (map (recordsOf zone) (take (Suc i) rrsets))))
         [0..<length rrsets]"

definition deleteChanges ::
  "(string \<Rightarrow> string) \<Rightarrow> string \<Rightarrow> domain_Record list \<Rightarrow> resourceRecordSet list \<Rightarrow>
   RecordChange list" where
  "deleteChanges E zone records rrsets =
     [ChangeDelete (rec_ID record). rrset \<leftarrow> rrsets, record \<leftarrow> records,
             rec_Name record @ ''.'' @ zone @ ''.'' = E (rrs_name rrset) \<and>
             rec_Data record = hd (rrs_data rrset) \<and>
             rrs_recordType rrset = rec_Type record]"

text \<open>A zone with one record, domain APIs that succeed or fail, and changesets, on which
  \<open>Apply\<close> is evaluated.\<close>

definition ensureDot :: "string \<Rightarrow> string" where
  "ensureDot s = (if HasSuffix s ''.'' then s else s @ ''.'')"

definition sampleDomainAPI :: "error option \<Rightarrow> unit DomainAPI" where
  "sampleDomainAPI listErr =
     \<lparr>ListDNSZoneRecords = (\<lambda>req s.
        (case listErr of
           Some err \<Rightarrow> Inl err
         | None \<Rightarrow> Inr \<lparr>Records = [existingRecord], recs_TotalCount = 1\<rparr>, s)),
      UpdateDNSZoneRecords = (\<lambda>req s. (Inr (), s))\<rparr>"

definition upsertExisting :: resourceRecordSet where
  "upsertExisting = \<lparr>rrs_name = ''api.example.com'', rrs_data = [''10.0.0.9''], rrs_ttl = 60,
     rrs_recordType = ''A''\<rparr>"

definition upsertNew :: resourceRecordSet where
  "upsertNew = \<lparr>rrs_name = ''new.example.com.'', rrs_data = [''10.0.0.5'', ''10.0.0.6''],
     rrs_ttl = 60, rrs_recordType = ''A''\<rparr>"

definition removeExisting :: resourceRecordSet where
  "removeExisting = \<lparr>rrs_name = ''api.example.com.'', rrs_data = [''10.0.0.1''], rrs_ttl = 60,
     rrs_recordType = ''A''\<rparr>"

definition sampleChangeset :: resourceRecordChangeset where
  "sampleChangeset = \<lparr>zoneName = ''example.com'', additions = [],
     removals = [removeExisting], upserts = [upsertExisting, upsertNew]\<rparr>"

definition emptyChangeset :: resourceRecordChangeset where
  "emptyChangeset = \<lparr>zoneName = ''example.com'', additions = [], removals = [], upserts = []\<rparr>"

definition dnsWorld0 :: "unit dnsWorld" where
  "dnsWorld0 = \<lparr>dnsState = (), dnsCalls = []\<rparr>"


section \<open>Unfolding the sample tasks and clouds\<close>

lemmas sample_defs =
  sampleGateway_def samplePrivateNetwork_def sampleGatewayNetwork_def sampleDNSRecord_def
  sampleInstance_def sampleLoadBalancer_def samplePrivateNIC_def


section \<open>Properties of the first free index\<close>

lemma firstFreeFrom_ge: "c \<le> firstFreeFrom c xs"
proof (induction xs arbitrary: c)
  case Nil
  show ?case by simp
next
  case (Cons x xs)
  have "c \<le> firstFreeFrom c xs" and "c + 1 \<le> firstFreeFrom (c + 1) xs"
    using Cons.IH by blast+
  then show ?case by simp
qed

lemma firstFreeFrom_fresh:
  "sorted xs \<Longrightarrow> firstFreeFrom c xs \<notin> set xs"
proof (induction xs arbitrary: c)
  case Nil
  show ?case by simp
next
  case (Cons x xs)
  from Cons.prems have sx: "sorted xs" and lo: "\<forall>y\<in>set xs. x \<le> y" by simp_all
  consider (below) "x < c" | (hit) "x = c" | (gap) "c < x" by linarith
  then show ?case
  proof cases
    case below
    have "c \<le> firstFreeFrom c xs" by (rule firstFreeFrom_ge)
    with below have "firstFreeFrom c xs \<noteq> x" by simp
    moreover have "firstFreeFrom c xs \<notin> set xs" using Cons.IH [OF sx] .
    ultimately show ?thesis using below by simp
  next
    case hit
    have "c + 1 \<le> firstFreeFrom (c + 1) xs" by (rule firstFreeFrom_ge)
    with hit have "firstFreeFrom (c + 1) xs \<noteq> x" by simp
    moreover have "firstFreeFrom (c + 1) xs \<notin> set xs" using Cons.IH [OF sx] .
    ultimately show ?thesis using hit by simp
  next
    case gap
    with lo have "c \<notin> set xs" by auto
    with gap show ?thesis by simp
  qed
qed

lemma firstFreeFrom_below_used:
  "c \<le> m \<Longrightarrow> m < firstFreeFrom c xs \<Longrightarrow> m \<in> set xs"
proof (induction xs arbitrary: c)
  case Nil
  then show ?case by simp
next
  case (Cons x xs)
  consider (below) "x < c" | (hit) "x = c" | (gap) "c < x" by linarith
  then show ?case
  proof cases
    case below
    with Cons.prems have "m < firstFreeFrom c xs" by simp
    with Cons.IH Cons.prems(1) show ?thesis by simp
  next
    case hit
    with Cons.prems have lt: "m < firstFreeFrom (c + 1) xs" by simp
    show ?thesis
    proof (cases "m = c")
      case True
      with hit show ?thesis by simp
    next
      case False
      with Cons.prems(1) have "c + 1 \<le> m" by simp
      with Cons.IH lt show ?thesis by simp
    qed
  next
    case gap
    with Cons.prems show ?thesis by simp
  qed
qed

text \<open>
  C1. \<open>findFirstFreeIndex\<close> returns the smallest non-negative integer that is not among
  the existing ordinals: the result is non-negative, it is not in use, and every
  non-negative integer below it is in use. For the ordinals \<open>{0,2,1}\<close> it is 3, for
  \<open>{1,2,4}\<close> it is 0 and for \<open>{4,5,2,3,0}\<close> it is 1.
\<close>

theorem findFirstFreeIndex_smallest_unused:
  "0 \<le> findFirstFreeIndex ordinals \<and>
   findFirstFreeIndex ordinals \<notin> set ordinals \<and>
   (\<forall>m. 0 \<le> m \<and> m < findFirstFreeIndex ordinals \<longrightarrow> m \<in> set ordinals) \<and>
   findFirstFreeIndex [0, 2, 1] = 3 \<and>
   findFirstFreeIndex [1, 2, 4] = 0 \<and>
   findFirstFreeIndex [4, 5, 2, 3, 0] = 1"
proof -
  have a: "0 \<le> findFirstFreeIndex ordinals"
    unfolding findFirstFreeIndex_def by (rule firstFreeFrom_ge)
  have "firstFreeFrom 0 (sort ordinals) \<notin> set (sort ordinals)"
    by (rule firstFreeFrom_fresh) simp
  then have b: "findFirstFreeIndex ordinals \<notin> set ordinals"
    unfolding findFirstFreeIndex_def by simp
  have c: "\<forall>m. 0 \<le> m \<and> m < findFirstFreeIndex ordinals \<longrightarrow> m \<in> set ordinals"
    unfolding findFirstFreeIndex_def using firstFreeFrom_below_used [of 0 _ "sort ordinals"]
    by auto
  have d: "findFirstFreeIndex [0, 2, 1] = 3" by (simp add: findFirstFreeIndex_def)
  have e: "findFirstFreeIndex [1, 2, 4] = 0" by (simp add: findFirstFreeIndex_def)
  have f: "findFirstFreeIndex [4, 5, 2, 3, 0] = 1" by (simp add: findFirstFreeIndex_def)
  from a b c d e f show ?thesis by blast
qed

theorem findFirstFreeIndex_smallest_unused_witness:
  "(0::int) \<le> 1 \<and> 1 < findFirstFreeIndex [0, 2, 1] \<and> (1::int) \<in> set [0, 2, 1] \<and>
   findFirstFreeIndex [0, 2, 1] \<notin> set [0, 2, 1]"
  using findFirstFreeIndex_smallest_unused [of "[0, 2, 1]"] by simp

section \<open>Properties of CheckChanges\<close>

lemma isCannotChangeField_iff: "isCannotChangeField r \<longleftrightarrow> (\<exists>f. r = Some (CannotChangeField f))"
  by (cases r rule: isCannotChangeField.cases) simp_all

lemma isRequiredField_iff: "isRequiredField r \<longleftrightarrow> (\<exists>f. r = Some (RequiredField f))"
  by (cases r rule: isRequiredField.cases) simp_all

text \<open>
  C2. With \<open>actual \<noteq> nil\<close>, \<open>CheckChanges\<close> of every task kind returns a
  \<open>CannotChangeField\<close> error as soon as \<open>changes\<close> holds a non-nil value in one of the
  fields the task kind guards after creation, whatever that value and whatever
  \<open>expected\<close> are: \<open>ID\<close> and \<open>Zone\<close> for a gateway network; \<open>Name\<close>, \<open>DNSZone\<close> and \<open>Type\<close>
  for a DNS record; \<open>Name\<close>, \<open>ID\<close> and \<open>Zone\<close> for a load balancer and for a gateway;
  \<open>Name\<close> and \<open>Zone\<close> for a private NIC.
\<close>

theorem CheckChanges_immutable_field:
  "(gwn_ID cgwn \<noteq> None \<or> gwn_Zone cgwn \<noteq> None \<longrightarrow>
      isCannotChangeField (GatewayNetwork_CheckChanges (Some agwn) egwn (Some cgwn))) \<and>
   (dns_Name cdns \<noteq> None \<or> dns_DNSZone cdns \<noteq> None \<or> dns_Type cdns \<noteq> None \<longrightarrow>
      isCannotChangeField (DNSRecord_CheckChanges (Some adns) edns (Some cdns))) \<and>
   (lb_Name clb \<noteq> None \<or> lb_ID clb \<noteq> None \<or> lb_Zone clb \<noteq> None \<longrightarrow>
      isCannotChangeField (LoadBalancer_CheckChanges (Some alb) elb (Some clb))) \<and>
   (gw_Name cgw \<noteq> None \<or> gw_ID cgw \<noteq> None \<or> gw_Zone cgw \<noteq> None \<longrightarrow>
      isCannotChangeField (Gateway_CheckChanges (Some agw) egw (Some cgw))) \<and>
   (nic_Name cnic \<noteq> None \<or> nic_Zone cnic \<noteq> None \<longrightarrow>
      isCannotChangeField (PrivateNIC_CheckChanges (Some anic) enic (Some cnic)))"
proof (intro conjI impI)
  assume "gwn_ID cgwn \<noteq> None \<or> gwn_Zone cgwn \<noteq> None"
  then show "isCannotChangeField (GatewayNetwork_CheckChanges (Some agwn) egwn (Some cgwn))"
    by (auto simp: GatewayNetwork_CheckChanges_def)
next
  assume "dns_Name cdns \<noteq> None \<or> dns_DNSZone cdns \<noteq> None \<or> dns_Type cdns \<noteq> None"
  then show "isCannotChangeField (DNSRecord_CheckChanges (Some adns) edns (Some cdns))"
    by (auto simp: DNSRecord_CheckChanges_def)
next
  assume "lb_Name clb \<noteq> None \<or> lb_ID clb \<noteq> None \<or> lb_Zone clb \<noteq> None"
  then show "isCannotChangeField (LoadBalancer_CheckChanges (Some alb) elb (Some clb))"
    by (auto simp: LoadBalancer_CheckChanges_def)
next
  assume "gw_Name cgw \<noteq> None \<or> gw_ID cgw \<noteq> None \<or> gw_Zone cgw \<noteq> None"
  then show "isCannotChangeField (Gateway_CheckChanges (Some agw) egw (Some cgw))"
    by (auto simp: Gateway_CheckChanges_def)
next
  assume "nic_Name cnic \<noteq> None \<or> nic_Zone cnic \<noteq> None"
  then show "isCannotChangeField (PrivateNIC_CheckChanges (Some anic) enic (Some cnic))"
    by (auto simp: PrivateNIC_CheckChanges_def)
qed

theorem CheckChanges_immutable_field_witness:
  "gwn_ID sampleGatewayNetwork \<noteq> None \<and>
   isCannotChangeField
     (GatewayNetwork_CheckChanges (Some sampleGatewayNetwork) None (Some sampleGatewayNetwork)) \<and>
   dns_Type sampleDNSRecord \<noteq> None \<and>
   isCannotChangeField (DNSRecord_CheckChanges (Some sampleDNSRecord) None (Some sampleDNSRecord)) \<and>
   lb_Zone sampleLoadBalancer \<noteq> None \<and>
   isCannotChangeField
     (LoadBalancer_CheckChanges (Some sampleLoadBalancer) None (Some sampleLoadBalancer)) \<and>
   gw_Name sampleGateway \<noteq> None \<and>
   isCannotChangeField (Gateway_CheckChanges (Some sampleGateway) None (Some sampleGateway)) \<and>
   nic_Zone samplePrivateNIC \<noteq> None \<and>
   isCannotChangeField (PrivateNIC_CheckChanges (Some samplePrivateNIC) None (Some samplePrivateNIC))"
  using CheckChanges_immutable_field [of sampleGatewayNetwork sampleGatewayNetwork None
      sampleDNSRecord sampleDNSRecord None sampleLoadBalancer sampleLoadBalancer None
      sampleGateway sampleGateway None samplePrivateNIC samplePrivateNIC None]
  by (simp add: sample_defs)

text \<open>
  C5. With \<open>actual = nil\<close>, \<open>CheckChanges\<close> of every task kind returns a \<open>RequiredField\<close>
  error as soon as one of the mandatory fields of \<open>expected\<close> is nil: \<open>Zone\<close> for a
  gateway network; \<open>Name\<close>, \<open>DNSZone\<close>, \<open>Type\<close> and \<open>Data\<close> for a DNS record; \<open>Name\<close> and
  \<open>Zone\<close> for a load balancer, a gateway and a private NIC.
\<close>

theorem CheckChanges_required_field:
  "(gwn_Zone egwn = None \<longrightarrow>
      isRequiredField (GatewayNetwork_CheckChanges None (Some egwn) cgwn)) \<and>
   (dns_Name edns = None \<or> dns_DNSZone edns = None \<or> dns_Type edns = None \<or> dns_Data edns = None \<longrightarrow>
      isRequiredField (DNSRecord_CheckChanges None (Some edns) cdns)) \<and>
   (lb_Name elb = None \<or> lb_Zone elb = None \<longrightarrow>
      isRequiredField (LoadBalancer_CheckChanges None (Some elb) clb)) \<and>
   (gw_Name egw = None \<or> gw_Zone egw = None \<longrightarrow>
      isRequiredField (Gateway_CheckChanges None (Some egw) cgw)) \<and>
   (nic_Name enic = None \<or> nic_Zone enic = None \<longrightarrow>
      isRequiredField (PrivateNIC_CheckChanges None (Some enic) cnic))"
proof (intro conjI impI)
  assume "gwn_Zone egwn = None"
  then show "isRequiredField (GatewayNetwork_CheckChanges None (Some egwn) cgwn)"
    by (simp add: GatewayNetwork_CheckChanges_def)
next
  assume "dns_Name edns = None \<or> dns_DNSZone edns = None \<or> dns_Type edns = None \<or> dns_Data edns = None"
  then show "isRequiredField (DNSRecord_CheckChanges None (Some edns) cdns)"
    by (auto simp: DNSRecord_CheckChanges_def)
next
  assume "lb_Name elb = None \<or> lb_Zone elb = None"
  then show "isRequiredField (LoadBalancer_CheckChanges None (Some elb) clb)"
    by (auto simp: LoadBalancer_CheckChanges_def)
next
  assume "gw_Name egw = None \<or> gw_Zone egw = None"
  then show "isRequiredField (Gateway_CheckChanges None (Some egw) cgw)"
    by (auto simp: Gateway_CheckChanges_def)
next
  assume "nic_Name enic = None \<or> nic_Zone enic = None"
  then show "isRequiredField (PrivateNIC_CheckChanges None (Some enic) cnic)"
    by (auto simp: PrivateNIC_CheckChanges_def)
qed

theorem CheckChanges_required_field_witness:
  "gwn_Zone (sampleGatewayNetwork\<lparr>gwn_Zone := None\<rparr>) = None \<and>
   isRequiredField
     (GatewayNetwork_CheckChanges None (Some (sampleGatewayNetwork\<lparr>gwn_Zone := None\<rparr>)) None) \<and>
   dns_Data (sampleDNSRecord\<lparr>dns_Data := None\<rparr>) = None \<and>
   isRequiredField (DNSRecord_CheckChanges None (Some (sampleDNSRecord\<lparr>dns_Data := None\<rparr>)) None) \<and>
   lb_Name (sampleLoadBalancer\<lparr>lb_Name := None\<rparr>) = None \<and>
   isRequiredField (LoadBalancer_CheckChanges None (Some (sampleLoadBalancer\<lparr>lb_Name := None\<rparr>)) None) \<and>
   gw_Zone (sampleGateway\<lparr>gw_Zone := None\<rparr>) = None \<and>
   isRequiredField (Gateway_CheckChanges None (Some (sampleGateway\<lparr>gw_Zone := None\<rparr>)) None) \<and>
   nic_Name (samplePrivateNIC\<lparr>nic_Name := None\<rparr>) = None \<and>
   isRequiredField (PrivateNIC_CheckChanges None (Some (samplePrivateNIC\<lparr>nic_Name := None\<rparr>)) None)"
  using CheckChanges_required_field [of "sampleGatewayNetwork\<lparr>gwn_Zone := None\<rparr>" None
      "sampleDNSRecord\<lparr>dns_Data := None\<rparr>" None "sampleLoadBalancer\<lparr>lb_Name := None\<rparr>" None
      "sampleGateway\<lparr>gw_Zone := None\<rparr>" None "samplePrivateNIC\<lparr>nic_Name := None\<rparr>" None]
  by simp

section \<open>Properties of Find\<close>





section \<open>Properties of the live renders\<close>







lemma LoadBalancer_RenderScw_starts_with_create:
  "\<exists>rest. calls (snd (snd (LoadBalancer_RenderScw cloud None expected changes w))) =
     calls w @
     CallCreateLB (CreateLBRequest (ValueOf (lb_Zone expected)) (ValueOf (lb_Name expected))
       (lb_Tags expected) (lb_Type expected) True) # rest"
  by (auto simp: LoadBalancer_RenderScw_def Let_def invoke_def
      split: prod.splits sum.splits option.splits)







lemmas eval_defs = quietCloud_def sampleCloud_def answer_def sample_defs world0_def
  Gateway_RenderScw_def GatewayNetwork_RenderScw_def LoadBalancer_RenderScw_def invoke_def
  getAllNodesIPs_def GetClusterServers_def sampleServer_def newGateway_def newGatewayNetwork_def
  newLB_def HasPrefix_def TrimPrefix_def TagNameRolePrefix_def TagRoleWorker_def
  TagClusterName_def ValueOf_def GatewayDefaultType_def PATRuleProtocolBoth_def Let_def









text \<open>
  C9. When the listing reports more than one load balancer, \<open>LoadBalancer.Find\<close>
  returns \<open>(nil, nil)\<close>, as for no load balancer, and the render that receives this
  \<open>nil\<close> as \<open>actual\<close> starts by issuing \<open>CreateLB\<close>; \<open>Gateway.Find\<close> and
  \<open>GatewayNetwork.Find\<close> return an error when their listing reports more than one
  match.
\<close>

theorem Find_several_matches:
  "(\<forall>r. ListLBs (LBService cloud) (ListLBsRequest (Zone cloud) (lb_Name lb)) (cloudState w) = Inr r \<and>
         1 < lbs_TotalCount r \<longrightarrow>
         LoadBalancer_Find cloud lb (cloudState w) = Inr None \<and>
         (\<exists>rest. calls (snd (snd (LoadBalancer_RenderScw cloud None lb changes w))) =
            calls w @
            CallCreateLB (CreateLBRequest (ValueOf (lb_Zone lb)) (ValueOf (lb_Name lb))
              (lb_Tags lb) (lb_Type lb) True) # rest)) \<and>
   (\<forall>r. ListGateways (GatewayService cloud)
           (ListGatewaysRequest (Zone cloud) (gw_Name gw)
              [TagClusterName @ ''='' @ ClusterNameFromTags (gw_Tags gw)]) (cloudState w) = Inr r \<and>
         1 < gws_TotalCount r \<longrightarrow>
         Gateway_Find cloud gw (cloudState w) = Inl (Errorf ''expected exactly 1 gateway, got %d'' None)) \<and>
   (\<forall>r gateway privateNetwork.
         gwn_Gateway gwn = Some gateway \<and> gwn_PrivateNetwork gwn = Some privateNetwork \<and>
         ListGatewayNetworks (GatewayService cloud)
           (ListGatewayNetworksRequest (Zone cloud) (gw_ID gateway) (pn_ID privateNetwork))
           (cloudState w) = Inr r \<and>
         1 < gwns_TotalCount r \<longrightarrow>
         GatewayNetwork_Find cloud gwn (cloudState w) =
           Inl (Errorf ''expected exactly 1 gateway network, got %d'' None))"
proof -
  have a: "\<forall>r. ListLBs (LBService cloud) (ListLBsRequest (Zone cloud) (lb_Name lb)) (cloudState w) = Inr r \<and>
         1 < lbs_TotalCount r \<longrightarrow>
         LoadBalancer_Find cloud lb (cloudState w) = Inr None \<and>
         (\<exists>rest. calls (snd (snd (LoadBalancer_RenderScw cloud None lb changes w))) =
            calls w @
            CallCreateLB (CreateLBRequest (ValueOf (lb_Zone lb)) (ValueOf (lb_Name lb))
              (lb_Tags lb) (lb_Type lb) True) # rest)"
    using LoadBalancer_RenderScw_starts_with_create [of cloud lb changes w]
    by (simp add: LoadBalancer_Find_def)
  have b: "\<forall>r. ListGateways (GatewayService cloud)
           (ListGatewaysRequest (Zone cloud) (gw_Name gw)
              [TagClusterName @ ''='' @ ClusterNameFromTags (gw_Tags gw)]) (cloudState w) = Inr r \<and>
         1 < gws_TotalCount r \<longrightarrow>
         Gateway_Find cloud gw (cloudState w) = Inl (Errorf ''expected exactly 1 gateway, got %d'' None)"
    by (simp add: Gateway_Find_def)
  have c: "\<forall>r gateway privateNetwork.
         gwn_Gateway gwn = Some gateway \<and> gwn_PrivateNetwork gwn = Some privateNetwork \<and>
         ListGatewayNetworks (GatewayService cloud)
           (ListGatewayNetworksRequest (Zone cloud) (gw_ID gateway) (pn_ID privateNetwork))
           (cloudState w) = Inr r \<and>
         1 < gwns_TotalCount r \<longrightarrow>
         GatewayNetwork_Find cloud gwn (cloudState w) =
           Inl (Errorf ''expected exactly 1 gateway network, got %d'' None)"
    by (simp add: GatewayNetwork_Find_def)
  from a b c show ?thesis by blast
qed

theorem Find_several_matches_witness:
  "1 < lbs_TotalCount \<lparr>LBs = [newLB, newLB], lbs_TotalCount = 2\<rparr> \<and>
   ListLBs (LBService crowdedCloud) (ListLBsRequest (Zone crowdedCloud) (lb_Name sampleLoadBalancer))
     (cloudState world0) = Inr \<lparr>LBs = [newLB, newLB], lbs_TotalCount = 2\<rparr> \<and>
   LoadBalancer_Find crowdedCloud sampleLoadBalancer (cloudState world0) = Inr None \<and>
   take 1 (calls (snd (snd (LoadBalancer_RenderScw crowdedCloud None sampleLoadBalancer None world0)))) =
     [CallCreateLB (CreateLBRequest ''fr-par-1'' ''api'' [] ''LB-S'' True)] \<and>
   Gateway_Find crowdedCloud sampleGateway (cloudState world0) =
     Inl (Errorf ''expected exactly 1 gateway, got %d'' None) \<and>
   GatewayNetwork_Find crowdedCloud sampleGatewayNetwork (cloudState world0) =
     Inl (Errorf ''expected exactly 1 gateway network, got %d'' None)"
  using Find_several_matches [where cloud = crowdedCloud and w = world0
      and lb = sampleLoadBalancer and changes = None and gw = sampleGateway
      and gwn = sampleGatewayNetwork]
  by (simp add: eval_defs crowdedCloud_def numeral_2_eq_2)

section \<open>Properties of GetDependencies\<close>

text \<open>
  C7, as stated, fails: a load balancer that holds no reference to a private network
  (\<open>PrivateNetwork = nil\<close>) still depends on every private network of the task set, and
  a load balancer that references one private network depends on the other private
  networks of the task set as well.
\<close>

theorem LoadBalancer_GetDependencies_ignores_reference:
  "lb_PrivateNetwork (sampleLoadBalancer\<lparr>lb_PrivateNetwork := None\<rparr>) = None \<and>
   LoadBalancer_GetDependencies (sampleLoadBalancer\<lparr>lb_PrivateNetwork := None\<rparr>) sampleTasks =
     [TaskPrivateNetwork samplePrivateNetwork, TaskPrivateNetwork otherPrivateNetwork] \<and>
   lb_PrivateNetwork sampleLoadBalancer = Some samplePrivateNetwork \<and>
   LoadBalancer_GetDependencies sampleLoadBalancer sampleTasks =
     [TaskPrivateNetwork samplePrivateNetwork, TaskPrivateNetwork otherPrivateNetwork]"
  by (simp add: sampleTasks_def sampleLoadBalancer_def)

text \<open>
  C7, amended. \<open>GetDependencies\<close> selects from the whole task set by task kind and does
  not read the task's own reference fields: a load balancer depends on every private
  network of the task set, a gateway network on every private network and every
  gateway, a private NIC on every instance and every private network, in the order in
  which the task set is visited.
\<close>

theorem GetDependencies_by_kind:
  "LoadBalancer_GetDependencies l tasks = filter isPrivateNetwork (map snd tasks) \<and>
   GatewayNetwork_GetDependencies g tasks =
     filter (\<lambda>task. isPrivateNetwork task \<or> isGateway task) (map snd tasks) \<and>
   PrivateNIC_GetDependencies p tasks =
     filter (\<lambda>task. isInstance task \<or> isPrivateNetwork task) (map snd tasks)"
proof (induction tasks)
  case Nil
  show ?case by simp
next
  case (Cons entry tasks)
  obtain name task where entry: "entry = (name, task)" by (cases entry)
  have excl: "\<not> (isPrivateNetwork task \<and> isGateway task)"
    "\<not> (isInstance task \<and> isPrivateNetwork task)"
    by (cases task; simp)+
  with Cons.IH entry show ?case by auto
qed

section \<open>Properties of the declarative-file target\<close>


lemma sort_unique:
  fixes xs ys :: "'a::linorder list"
  assumes "distinct xs" "distinct ys" "set xs = set ys"
  shows "sort xs = sort ys"
  by (rule sorted_distinct_set_unique) (use assms in simp_all)

lemma sameMap_keys: "sameMap m1 m2 \<Longrightarrow> set (map fst m1) = set (map fst m2)"
  by (simp add: sameMap_def)

lemma sameMap_lookup: "sameMap m1 m2 \<Longrightarrow> map_of m1 = map_of m2"
  by (simp add: sameMap_def map_of_inject_set)

lemma sameMap_sorted_keys:
  fixes m1 m2 :: "('k::linorder \<times> 'v) list"
  shows "sameMap m1 m2 \<Longrightarrow> sort (map fst m1) = sort (map fst m2)"
  by (rule sort_unique) (simp_all add: sameMap_def)

lemma writeNamed_blocks:
  "writeNamed W kind t resources names buf =
     buf @ concat (map (\<lambda>n. writeElement W (map_of resources n)
                          (kind @ '' '' @ quote W t @ '' '' @ quote W n) @ [CHR 0x0A]) names)"
  by (induction names arbitrary: buf) simp_all

lemma writeTyped_blocks:
  "writeTyped W kind byType types buf =
     buf @ concat (map (block W kind byType)
       (concat (map (\<lambda>t. map (Pair t)
          (sort (map fst (case map_of byType t of None \<Rightarrow> [] | Some r \<Rightarrow> r)))) types)))"
proof (induction types arbitrary: buf)
  case Nil
  show ?case by simp
next
  case (Cons t types)
  have "concat (map (block W kind byType) (map (Pair t) ns)) =
        concat (map (\<lambda>n. writeElement W
           (map_of (case map_of byType t of None \<Rightarrow> [] | Some r \<Rightarrow> r) n)
           (kind @ '' '' @ quote W t @ '' '' @ quote W n) @ [CHR 0x0A]) ns)" for ns
    by (simp add: block_def comp_def)
  then show ?case
    by (simp add: Cons.IH writeNamed_blocks Let_def)
qed

lemma sorted_pairs:
  fixes types :: "'a::linorder list" and names :: "'a \<Rightarrow> 'c::linorder list"
  assumes "sorted types" "distinct types"
  shows "sorted (concat (map (\<lambda>t. map (Pair t) (sort (names t))) types))"
  using assms
proof (induction types)
  case Nil
  show ?case by simp
next
  case (Cons t types)
  have here: "sorted (map (Pair t) (sort (names t)))"
    by (simp add: sorted_map sorted_wrt_iff_nth_less less_eq_prod_def)
       (metis sorted_sort sorted_iff_nth_mono less_imp_le_nat length_sort)
  have later: "\<forall>x\<in>set (map (Pair t) (sort (names t))).
     \<forall>y\<in>set (concat (map (\<lambda>t. map (Pair t) (sort (names t))) types)). x \<le> y"
    using Cons.prems by (auto simp: less_eq_prod_def)
  from Cons have "sorted (concat (map (\<lambda>t. map (Pair t) (sort (names t))) types))" by simp
  with here later show ?case by (simp add: sorted_append)
qed


lemma writeOutputs_blocks:
  "writeOutputs W locals names buf =
     buf @ concat (map (\<lambda>n. writeOutput W (locals n) (''output '' @ quote W n) @ [CHR 0x0A]) names)"
  by (induction names arbitrary: buf) simp_all

lemma collectLocals_distinct:
  "distinct (map fst outputs) \<Longrightarrow> \<forall>k\<in>set (map fst outputs). locals k = None \<Longrightarrow>
   collectLocals W outputs locals names =
     Inr (\<lambda>k. case map_of outputs k of Some v \<Rightarrow> Some (localValue W v) | None \<Rightarrow> locals k,
          names @ map fst outputs)"
proof (induction outputs arbitrary: locals names)
  case Nil
  show ?case by simp
next
  case (Cons entry outputs)
  obtain k v where entry: "entry = (k, v)" by (cases entry)
  from Cons.prems entry have fresh: "locals k = None" and notin: "k \<notin> fst ` set outputs"
    and d: "distinct (map fst outputs)" by auto
  have rest: "\<forall>j\<in>set (map fst outputs). (locals(k \<mapsto> localValue W v)) j = None"
    using Cons.prems entry by auto
  have step: "collectLocals W ((k, v) # outputs) locals names =
      collectLocals W outputs (locals(k \<mapsto> localValue W v)) (names @ [k])"
    using fresh by simp
  have ih: "collectLocals W outputs (locals(k \<mapsto> localValue W v)) (names @ [k]) =
      Inr (\<lambda>j. case map_of outputs j of Some u \<Rightarrow> Some (localValue W u)
              | None \<Rightarrow> (locals(k \<mapsto> localValue W v)) j, (names @ [k]) @ map fst outputs)"
    by (rule Cons.IH [OF d rest])
  have fn: "(\<lambda>j. case map_of outputs j of Some u \<Rightarrow> Some (localValue W u)
              | None \<Rightarrow> (locals(k \<mapsto> localValue W v)) j) =
        (\<lambda>j. case map_of ((k, v) # outputs) j of Some u \<Rightarrow> Some (localValue W u)
              | None \<Rightarrow> locals j)"
  proof
    fix j
    from notin have "map_of outputs k = None" by (simp add: map_of_eq_None_iff)
    then show "(case map_of outputs j of Some u \<Rightarrow> Some (localValue W u)
              | None \<Rightarrow> (locals(k \<mapsto> localValue W v)) j) =
        (case map_of ((k, v) # outputs) j of Some u \<Rightarrow> Some (localValue W u)
              | None \<Rightarrow> locals j)"
      by (cases "j = k") (simp_all split: option.splits)
  qed
  have nm: "(names @ [k]) @ map fst outputs = names @ map fst ((k, v) # outputs)" by simp
  show ?case unfolding entry by (simp only: step ih fn nm)
qed

lemma writeLocalsOutputs_distinct:
  assumes "distinct (map fst outputs)" "outputs \<noteq> []"
  shows "writeLocalsOutputs W buf outputs =
     Inr (buf @ writeLocals W (\<lambda>k. map_option (localValue W) (map_of outputs k)) @ [CHR 0x0A] @
          concat (map (\<lambda>n. writeOutput W (map_option (localValue W) (map_of outputs n))
                         (''output '' @ quote W n) @ [CHR 0x0A])
                   (sort (map fst outputs))))"
proof -
  have eq: "(\<lambda>k. case map_of outputs k of Some v \<Rightarrow> Some (localValue W v) | None \<Rightarrow> None) =
        (\<lambda>k. map_option (localValue W) (map_of outputs k))"
    by (auto simp: fun_eq_iff split: option.splits)
  have "collectLocals W outputs Map.empty [] =
     Inr (\<lambda>k. map_option (localValue W) (map_of outputs k), map fst outputs)"
    using collectLocals_distinct [OF assms(1), of Map.empty W "[]"] eq by simp
  with assms(2) show ?thesis
    by (simp add: writeLocalsOutputs_def writeOutputs_blocks)
qed

lemma sameNestedMap_inner:
  assumes "sameNestedMap m1 m2" "t \<in> set (map fst m1)"
  shows "sameMap (case map_of m1 t of None \<Rightarrow> [] | Some r \<Rightarrow> r)
                 (case map_of m2 t of None \<Rightarrow> [] | Some r \<Rightarrow> r)"
proof -
  from assms have "case (map_of m1 t, map_of m2 t) of
      (Some r1, Some r2) \<Rightarrow> sameMap r1 r2 | _ \<Rightarrow> False"
    unfolding sameNestedMap_def by blast
  then show ?thesis by (auto split: option.splits)
qed

lemma sameNestedMap_emissionOrder:
  assumes "sameNestedMap m1 m2"
  shows "emissionOrder m1 = emissionOrder m2"
proof -
  have ts: "sort (map fst m1) = sort (map fst m2)"
    using assms by (intro sort_unique) (simp_all add: sameNestedMap_def)
  have eq: "map (\<lambda>t. map (Pair t)
           (sort (map fst (case map_of m1 t of None \<Rightarrow> [] | Some r \<Rightarrow> r)))) (sort (map fst m1)) =
        map (\<lambda>t. map (Pair t)
           (sort (map fst (case map_of m2 t of None \<Rightarrow> [] | Some r \<Rightarrow> r)))) (sort (map fst m1))"
  proof (rule map_cong [OF refl])
    fix t assume "t \<in> set (sort (map fst m1))"
    then have "t \<in> set (map fst m1)" by simp
    from sameMap_sorted_keys [OF sameNestedMap_inner [OF assms this]]
    show "map (Pair t) (sort (map fst (case map_of m1 t of None \<Rightarrow> [] | Some r \<Rightarrow> r))) =
          map (Pair t) (sort (map fst (case map_of m2 t of None \<Rightarrow> [] | Some r \<Rightarrow> r)))"
      by simp
  qed
  have "emissionOrder m1 = concat (map (\<lambda>t. map (Pair t)
           (sort (map fst (case map_of m2 t of None \<Rightarrow> [] | Some r \<Rightarrow> r)))) (sort (map fst m1)))"
    unfolding emissionOrder_def by (simp only: eq)
  also have "\<dots> = emissionOrder m2"
    unfolding emissionOrder_def by (simp only: ts)
  finally show ?thesis .
qed

lemma emissionOrder_types: "(t, n) \<in> set (emissionOrder m) \<Longrightarrow> t \<in> set (map fst m)"
  by (auto simp: emissionOrder_def)

lemma sameNestedMap_blocks:
  assumes "sameNestedMap m1 m2"
  shows "map (block W kind m1) (emissionOrder m1) = map (block W kind m2) (emissionOrder m1)"
proof (rule map_cong [OF refl])
  fix x assume x: "x \<in> set (emissionOrder m1)"
  obtain t n where tn: "x = (t, n)" by (cases x)
  with x have "t \<in> set (map fst m1)" by (auto dest: emissionOrder_types)
  from sameMap_lookup [OF sameNestedMap_inner [OF assms this]] tn
  show "block W kind m1 x = block W kind m2 x" by (simp add: block_def)
qed

lemma writeTyped_emissionOrder:
  "writeTyped W kind m (sort (map fst m)) buf =
     buf @ concat (map (block W kind m) (emissionOrder m))"
  by (simp add: writeTyped_blocks emissionOrder_def)

lemma writeTyped_same:
  assumes "sameNestedMap m1 m2"
  shows "writeTyped W kind m1 (sort (map fst m1)) buf = writeTyped W kind m2 (sort (map fst m2)) buf"
proof -
  have "writeTyped W kind m1 (sort (map fst m1)) buf =
        buf @ concat (map (block W kind m1) (emissionOrder m1))"
    by (rule writeTyped_emissionOrder)
  also have "\<dots> = buf @ concat (map (block W kind m2) (emissionOrder m1))"
    by (simp only: sameNestedMap_blocks [OF assms])
  also have "\<dots> = buf @ concat (map (block W kind m2) (emissionOrder m2))"
    by (simp only: sameNestedMap_emissionOrder [OF assms])
  also have "\<dots> = writeTyped W kind m2 (sort (map fst m2)) buf"
    by (rule writeTyped_emissionOrder [symmetric])
  finally show ?thesis .
qed

lemma emissionOrder_sorted: "distinct (map fst m) \<Longrightarrow> sorted (emissionOrder m)"
  unfolding emissionOrder_def by (rule sorted_pairs) simp_all

lemma writeLocalsOutputs_same:
  assumes "sameMap o1 o2"
  shows "writeLocalsOutputs W buf o1 = writeLocalsOutputs W buf o2"
proof (cases "o1 = []")
  case True
  with assms have "o2 = []" by (simp add: sameMap_def)
  with True show ?thesis by simp
next
  case False
  with assms have ne2: "o2 \<noteq> []" by (auto simp: sameMap_def)
  from assms have d1: "distinct (map fst o1)" and d2: "distinct (map fst o2)"
    by (simp_all add: sameMap_def)
  show ?thesis
    using sameMap_lookup [OF assms] sameMap_sorted_keys [OF assms]
    by (simp add: writeLocalsOutputs_distinct [OF d1 False] writeLocalsOutputs_distinct [OF d2 ne2])
qed

text \<open>
  C4. The output of the declarative-file target does not depend on the order in which a
  run visits its maps: two runs that see the same resources, the same data sources and
  the same outputs write the same bytes. Resources and data sources are written in the
  order of their (type, name) pairs, sorted by type and then by name, and the output
  blocks in the sorted order of their names, after the locals block.
\<close>

theorem terraform_output_deterministic:
  "(sameNestedMap r1 r2 \<longrightarrow> writeResources W buf r1 = writeResources W buf r2) \<and>
   (sameNestedMap d1 d2 \<longrightarrow> writeDataSources W buf d1 = writeDataSources W buf d2) \<and>
   (sameMap o1 o2 \<longrightarrow> writeLocalsOutputs W buf o1 = writeLocalsOutputs W buf o2) \<and>
   writeResources W buf r1 = buf @ concat (map (block W ''resource'' r1) (emissionOrder r1)) \<and>
   writeDataSources W buf d1 = buf @ concat (map (block W ''data'' d1) (emissionOrder d1)) \<and>
   (distinct (map fst r1) \<longrightarrow> sorted (emissionOrder r1)) \<and>
   (distinct (map fst d1) \<longrightarrow> sorted (emissionOrder d1)) \<and>
   (distinct (map fst o1) \<and> o1 \<noteq> [] \<longrightarrow>
      writeLocalsOutputs W buf o1 =
        Inr (buf @ writeLocals W (\<lambda>k. map_option (localValue W) (map_of o1 k)) @ [CHR 0x0A] @
             concat (map (\<lambda>n. writeOutput W (map_option (localValue W) (map_of o1 n))
                            (''output '' @ quote W n) @ [CHR 0x0A])
                      (sort (map fst o1)))))"
proof -
  have a: "sameNestedMap r1 r2 \<longrightarrow> writeResources W buf r1 = writeResources W buf r2"
    by (simp add: writeResources_def writeTyped_same)
  have b: "sameNestedMap d1 d2 \<longrightarrow> writeDataSources W buf d1 = writeDataSources W buf d2"
    by (simp add: writeDataSources_def writeTyped_same)
  have c: "sameMap o1 o2 \<longrightarrow> writeLocalsOutputs W buf o1 = writeLocalsOutputs W buf o2"
    by (simp add: writeLocalsOutputs_same)
  have d: "writeResources W buf r1 = buf @ concat (map (block W ''resource'' r1) (emissionOrder r1))"
    by (simp only: writeResources_def writeTyped_emissionOrder)
  have e: "writeDataSources W buf d1 = buf @ concat (map (block W ''data'' d1) (emissionOrder d1))"
    by (simp only: writeDataSources_def writeTyped_emissionOrder)
  have f: "distinct (map fst r1) \<longrightarrow> sorted (emissionOrder r1)"
    and g: "distinct (map fst d1) \<longrightarrow> sorted (emissionOrder d1)"
    by (simp_all add: emissionOrder_sorted)
  have h: "distinct (map fst o1) \<and> o1 \<noteq> [] \<longrightarrow>
      writeLocalsOutputs W buf o1 =
        Inr (buf @ writeLocals W (\<lambda>k. map_option (localValue W) (map_of o1 k)) @ [CHR 0x0A] @
             concat (map (\<lambda>n. writeOutput W (map_option (localValue W) (map_of o1 n))
                            (''output '' @ quote W n) @ [CHR 0x0A])
                      (sort (map fst o1))))"
    by (simp add: writeLocalsOutputs_distinct)
  from a b c d e f g h show ?thesis by blast
qed


theorem terraform_output_deterministic_witness:
  "sameNestedMap resourcesFirstRun resourcesSecondRun \<and>
   sameMap outputsFirstRun outputsSecondRun \<and>
   distinct (map fst resourcesFirstRun) \<and>
   distinct (map fst outputsFirstRun) \<and> outputsFirstRun \<noteq> [] \<and>
   writeResources sampleWriter [] resourcesFirstRun =
     writeResources sampleWriter [] resourcesSecondRun \<and>
   writeDataSources sampleWriter [] resourcesFirstRun =
     writeDataSources sampleWriter [] resourcesSecondRun \<and>
   writeLocalsOutputs sampleWriter [] outputsFirstRun =
     writeLocalsOutputs sampleWriter [] outputsSecondRun \<and>
   sorted (emissionOrder resourcesFirstRun) \<and>
   emissionOrder resourcesFirstRun =
     [(''scaleway_domain_record'', ''api''), (''scaleway_lb'', ''api''), (''scaleway_lb'', ''web'')]"
proof -
  have h1: "sameNestedMap resourcesFirstRun resourcesSecondRun" by code_simp
  have h2: "sameMap outputsFirstRun outputsSecondRun" by code_simp
  have h3: "distinct (map fst resourcesFirstRun)" by code_simp
  have h4: "distinct (map fst outputsFirstRun) \<and> outputsFirstRun \<noteq> []" by code_simp
  have h5: "emissionOrder resourcesFirstRun =
     [(''scaleway_domain_record'', ''api''), (''scaleway_lb'', ''api''), (''scaleway_lb'', ''web'')]"
    by code_simp
  from h1 h2 h3 h4 h5
    terraform_output_deterministic [of resourcesFirstRun resourcesSecondRun sampleWriter "[]"
      resourcesFirstRun resourcesSecondRun outputsFirstRun outputsSecondRun]
  show ?thesis by blast
qed

section \<open>Properties of the DNS changeset\<close>

lemma scanRecords_result:
  "scanRecords E zone rrset rrdata records (found, req) =
     (found \<or> list_ex (sameNameAndType E zone rrset) records,
      req @ map (setChange rrset rrdata) (filter (sameNameAndType E zone rrset) records))"
  by (induction records arbitrary: found req) simp_all

lemma upsertData_result:
  "upsertData E zone records rrset rrdatas (adds, req) =
     (adds @ concat (map (\<lambda>rrdata.
               if \<not> list_ex (sameNameAndType E zone rrset) records then [rrset] else []) rrdatas),
      req @ concat (map (\<lambda>rrdata.
               map (setChange rrset rrdata) (filter (sameNameAndType E zone rrset) records)) rrdatas))"
  by (induction rrdatas arbitrary: adds req) (simp_all add: scanRecords_result)

lemma upsertAll_result:
  "upsertAll E zone records rrsets (adds, req) =
     (adds @ reclassified E zone records rrsets, req @ setChanges E zone records rrsets)"
proof (induction rrsets arbitrary: adds req)
  case Nil
  show ?case by (simp add: reclassified_def setChanges_def)
next
  case (Cons rrset rrsets)
  have r: "reclassified E zone records (rrset # rrsets) =
      concat (map (\<lambda>rrdata.
               if \<not> list_ex (sameNameAndType E zone rrset) records then [rrset] else [])
             (rrs_data rrset)) @ reclassified E zone records rrsets"
    by (simp add: reclassified_def)
  have c: "setChanges E zone records (rrset # rrsets) =
      concat (map (\<lambda>rrdata.
               map (setChange rrset rrdata) (filter (sameNameAndType E zone rrset) records))
             (rrs_data rrset)) @ setChanges E zone records rrsets"
  proof -
    have "concat (map (\<lambda>record. if sameNameAndType E zone rrset record
                         then [setChange rrset rrdata record] else []) records) =
          map (setChange rrset rrdata) (filter (sameNameAndType E zone rrset) records)" for rrdata
      by (induction records) simp_all
    then show ?thesis by (simp add: setChanges_def)
  qed
  show ?case by (simp add: upsertData_result Cons.IH r c)
qed

lemma addAll_result:
  "addAll zone rrsets (acc, req) =
     (acc @ concat (map (recordsOf zone) rrsets),
      req @ map (\<lambda>i. ChangeAdd (acc @ concat (map (recordsOf zone) (take (Suc i) rrsets))))
                [0..<length rrsets])"
proof (induction rrsets arbitrary: acc req)
  case Nil
  show ?case by simp
next
  case (Cons rrset rrsets)
  have "[0..<length (rrset # rrsets)] = 0 # map Suc [0..<length rrsets]"
    by (simp add: upt_conv_Cons map_Suc_upt del: upt_Suc)
  then show ?case by (simp add: Cons.IH Let_def comp_def del: upt_Suc)
qed

lemma removeScan_result:
  "rrs_data rrset \<noteq> [] \<Longrightarrow>
   removeScan E zone rrset records req =
     Inr (req @ map (\<lambda>record. ChangeDelete (rec_ID record))
            (filter (\<lambda>record. rec_Name record @ ''.'' @ zone @ ''.'' = E (rrs_name rrset) \<and>
                        rec_Data record = hd (rrs_data rrset) \<and>
                        rrs_recordType rrset = rec_Type record) records))"
  by (induction records arbitrary: req) (auto split: list.splits)

lemma removeAll_result:
  "\<forall>rrset\<in>set rrsets. rrs_data rrset \<noteq> [] \<Longrightarrow>
   removeAll E zone records rrsets req = Inr (req @ deleteChanges E zone records rrsets)"
proof (induction rrsets arbitrary: req)
  case Nil
  show ?case by (simp add: deleteChanges_def)
next
  case (Cons rrset rrsets)
  have "concat (map (\<lambda>record.
           if rec_Name record @ ''.'' @ zone @ ''.'' = E (rrs_name rrset) \<and>
              rec_Data record = hd (rrs_data rrset) \<and> rrs_recordType rrset = rec_Type record
           then [ChangeDelete (rec_ID record)] else []) records) =
        map (\<lambda>record. ChangeDelete (rec_ID record))
            (filter (\<lambda>record. rec_Name record @ ''.'' @ zone @ ''.'' = E (rrs_name rrset) \<and>
                        rec_Data record = hd (rrs_data rrset) \<and>
                        rrs_recordType rrset = rec_Type record) records)"
    by (induction records) simp_all
  then have d: "deleteChanges E zone records (rrset # rrsets) =
      map (\<lambda>record. ChangeDelete (rec_ID record))
            (filter (\<lambda>record. rec_Name record @ ''.'' @ zone @ ''.'' = E (rrs_name rrset) \<and>
                        rec_Data record = hd (rrs_data rrset) \<and>
                        rrs_recordType rrset = rec_Type record) records) @
      deleteChanges E zone records rrsets"
    by (simp add: deleteChanges_def)
  from Cons.prems have "rrs_data rrset \<noteq> []" and "\<forall>rrset\<in>set rrsets. rrs_data rrset \<noteq> []"
    by simp_all
  then show ?case by (simp add: removeScan_result Cons.IH d)
qed


text \<open>
  C10, as stated, fails when the listing of the zone's records fails: the changeset is
  not empty, \<open>Apply\<close> returns the listing's error and the only call issued is the
  listing; no \<open>UpdateDNSZoneRecords\<close> call is made.
\<close>

theorem Apply_listing_failure_no_update:
  "\<not> IsEmpty sampleChangeset \<and>
   Apply (sampleDomainAPI (Some unavailable)) ensureDot sampleChangeset dnsWorld0 =
     (Some (Errorf ''failed to list records'' (Some unavailable)), sampleChangeset,
      \<lparr>dnsState = (),
       dnsCalls = [DomainListDNSZoneRecords (ListDNSZoneRecordsRequest ''example.com'' [] [])]\<rparr>)"
  by (simp add: Apply_def IsEmpty_def listRecords_def sampleDomainAPI_def sampleChangeset_def
      dnsWorld0_def)

text \<open>
  C10, amended. If the changeset is empty, \<open>Apply\<close> returns nil without any API call. If
  it is not empty and the listing of the zone's records fails, \<open>Apply\<close> returns that
  error after the listing call alone. If it is not empty, the listing succeeds and every
  removed record set has a datum, then \<open>Apply\<close> appends to the additions every upserted
  record set once per datum when no existing record has its name (with the zone suffix)
  and type, and after the listing issues exactly one \<open>UpdateDNSZoneRecords\<close> call, which
  carries the set changes, then the add changes of all additions, then the delete
  changes; \<open>Apply\<close> returns nil or the wrapped error of that call.
\<close>

theorem Apply_one_update_call:
  "(IsEmpty r \<longrightarrow> Apply api E r w = (None, r, w)) \<and>
   (\<forall>err s1.
      \<not> IsEmpty r \<and>
      ListDNSZoneRecords api (ListDNSZoneRecordsRequest (zoneName r) [] []) (dnsState w) = (Inl err, s1) \<longrightarrow>
      Apply api E r w =
        (Some (Errorf ''failed to list records'' (Some err)), r,
         \<lparr>dnsState = s1,
          dnsCalls = dnsCalls w @
            [DomainListDNSZoneRecords (ListDNSZoneRecordsRequest (zoneName r) [] [])]\<rparr>)) \<and>
   (\<forall>resp s1 res s2.
      \<not> IsEmpty r \<and>
      ListDNSZoneRecords api (ListDNSZoneRecordsRequest (zoneName r) [] []) (dnsState w) = (Inr resp, s1) \<and>
      (\<forall>rrset\<in>set (removals r). rrs_data rrset \<noteq> []) \<and>
      UpdateDNSZoneRecords api
        (UpdateDNSZoneRecordsRequest (zoneName r)
           (setChanges E (zoneName r) (Records resp) (upserts r) @
            addChanges (zoneName r)
              (additions r @ reclassified E (zoneName r) (Records resp) (upserts r)) @
            deleteChanges E (zoneName r) (Records resp) (removals r))) s1 = (res, s2) \<longrightarrow>
      Apply api E r w =
        ((case res of
            Inl err \<Rightarrow> Some (Errorf ''failed to apply resource record set'' (Some err))
          | Inr _ \<Rightarrow> None),
         r\<lparr>additions := additions r @ reclassified E (zoneName r) (Records resp) (upserts r)\<rparr>,
         \<lparr>dnsState = s2,
          dnsCalls = dnsCalls w @
            [DomainListDNSZoneRecords (ListDNSZoneRecordsRequest (zoneName r) [] []),
             DomainUpdateDNSZoneRecords
               (UpdateDNSZoneRecordsRequest (zoneName r)
                  (setChanges E (zoneName r) (Records resp) (upserts r) @
                   addChanges (zoneName r)
                     (additions r @ reclassified E (zoneName r) (Records resp) (upserts r)) @
                   deleteChanges E (zoneName r) (Records resp) (removals r)))]\<rparr>))"
proof (intro conjI allI impI)
  assume "IsEmpty r"
  then show "Apply api E r w = (None, r, w)" by (simp add: Apply_def)
next
  fix err s1
  assume "\<not> IsEmpty r \<and>
      ListDNSZoneRecords api (ListDNSZoneRecordsRequest (zoneName r) [] []) (dnsState w) = (Inl err, s1)"
  then show "Apply api E r w =
        (Some (Errorf ''failed to list records'' (Some err)), r,
         \<lparr>dnsState = s1,
          dnsCalls = dnsCalls w @
            [DomainListDNSZoneRecords (ListDNSZoneRecordsRequest (zoneName r) [] [])]\<rparr>)"
    by (simp add: Apply_def listRecords_def)
next
  fix resp :: ListDNSZoneRecordsResponse and s1 res s2
  let ?adds = "additions r @ reclassified E (zoneName r) (Records resp) (upserts r)"
  let ?changes = "setChanges E (zoneName r) (Records resp) (upserts r) @
            addChanges (zoneName r) ?adds @
            deleteChanges E (zoneName r) (Records resp) (removals r)"
  assume a: "\<not> IsEmpty r \<and>
      ListDNSZoneRecords api (ListDNSZoneRecordsRequest (zoneName r) [] []) (dnsState w) = (Inr resp, s1) \<and>
      (\<forall>rrset\<in>set (removals r). rrs_data rrset \<noteq> []) \<and>
      UpdateDNSZoneRecords api (UpdateDNSZoneRecordsRequest (zoneName r) ?changes) s1 = (res, s2)"
  have l: "listRecords api (zoneName r) w =
      (Inr (Records resp),
       \<lparr>dnsState = s1,
        dnsCalls = dnsCalls w @
          [DomainListDNSZoneRecords (ListDNSZoneRecordsRequest (zoneName r) [] [])]\<rparr>)"
    using a by (simp add: listRecords_def)
  have u: "upsertAll E (zoneName r) (Records resp) (upserts r) (additions r, []) =
      (?adds, setChanges E (zoneName r) (Records resp) (upserts r))"
    by (simp add: upsertAll_result)
  have ad: "addAll (zoneName r) ?adds ([], setChanges E (zoneName r) (Records resp) (upserts r)) =
      (concat (map (recordsOf (zoneName r)) ?adds),
       setChanges E (zoneName r) (Records resp) (upserts r) @ addChanges (zoneName r) ?adds)"
    by (simp only: addAll_result addChanges_def append_Nil)
  have rm: "removeAll E (zoneName r) (Records resp) (removals r)
       (setChanges E (zoneName r) (Records resp) (upserts r) @ addChanges (zoneName r) ?adds) =
      Inr ?changes"
    using a by (simp add: removeAll_result)
  from a have ne: "\<not> IsEmpty r"
    and up: "UpdateDNSZoneRecords api (UpdateDNSZoneRecordsRequest (zoneName r) ?changes) s1 = (res, s2)"
    by simp_all
  show "Apply api E r w =
        ((case res of
            Inl err \<Rightarrow> Some (Errorf ''failed to apply resource record set'' (Some err))
          | Inr _ \<Rightarrow> None),
         r\<lparr>additions := ?adds\<rparr>,
         \<lparr>dnsState = s2,
          dnsCalls = dnsCalls w @
            [DomainListDNSZoneRecords (ListDNSZoneRecordsRequest (zoneName r) [] []),
             DomainUpdateDNSZoneRecords (UpdateDNSZoneRecordsRequest (zoneName r) ?changes)]\<rparr>)"
    unfolding Apply_def by (simp add: ne l u ad rm up Let_def)
qed


theorem Apply_one_update_call_witness:
  "IsEmpty emptyChangeset \<and>
   Apply (sampleDomainAPI None) ensureDot emptyChangeset dnsWorld0 = (None, emptyChangeset, dnsWorld0) \<and>
   \<not> IsEmpty sampleChangeset \<and>
   fst (Apply (sampleDomainAPI (Some unavailable)) ensureDot sampleChangeset dnsWorld0) =
     Some (Errorf ''failed to list records'' (Some unavailable)) \<and>
   Apply (sampleDomainAPI None) ensureDot sampleChangeset dnsWorld0 =
     (None,
      sampleChangeset\<lparr>additions := [upsertNew, upsertNew]\<rparr>,
      \<lparr>dnsState = (),
       dnsCalls =
         [DomainListDNSZoneRecords (ListDNSZoneRecordsRequest ''example.com'' [] []),
          DomainUpdateDNSZoneRecords
            (UpdateDNSZoneRecordsRequest ''example.com''
               [ChangeSet ''rec-1''
                  [\<lparr>rec_ID = [], rec_Name = ''api'', rec_Data = ''10.0.0.9'', rec_TTL = 60,
                    rec_Type = ''A''\<rparr>],
                ChangeAdd
                  [\<lparr>rec_ID = [], rec_Name = ''new'', rec_Data = ''10.0.0.5'', rec_TTL = 60,
                    rec_Type = ''A''\<rparr>,
                   \<lparr>rec_ID = [], rec_Name = ''new'', rec_Data = ''10.0.0.6'', rec_TTL = 60,
                    rec_Type = ''A''\<rparr>],
                ChangeAdd
                  [\<lparr>rec_ID = [], rec_Name = ''new'', rec_Data = ''10.0.0.5'', rec_TTL = 60,
                    rec_Type = ''A''\<rparr>,
                   \<lparr>rec_ID = [], rec_Name = ''new'', rec_Data = ''10.0.0.6'', rec_TTL = 60,
                    rec_Type = ''A''\<rparr>,
                   \<lparr>rec_ID = [], rec_Name = ''new'', rec_Data = ''10.0.0.5'', rec_TTL = 60,
                    rec_Type = ''A''\<rparr>,
                   \<lparr>rec_ID = [], rec_Name = ''new'', rec_Data = ''10.0.0.6'', rec_TTL = 60,
                    rec_Type = ''A''\<rparr>],
                ChangeDelete ''rec-1''])]\<rparr>)"
proof -
  have e1: "setChanges ensureDot ''example.com'' [existingRecord] [upsertExisting, upsertNew] =
      [ChangeSet ''rec-1''
         [\<lparr>rec_ID = [], rec_Name = ''api'', rec_Data = ''10.0.0.9'', rec_TTL = 60,
           rec_Type = ''A''\<rparr>]]"
    by code_simp
  have e2: "reclassified ensureDot ''example.com'' [existingRecord] [upsertExisting, upsertNew] =
      [upsertNew, upsertNew]"
    by code_simp
  have e3: "addChanges ''example.com'' [upsertNew, upsertNew] =
      [ChangeAdd
         [\<lparr>rec_ID = [], rec_Name = ''new'', rec_Data = ''10.0.0.5'', rec_TTL = 60,
           rec_Type = ''A''\<rparr>,
          \<lparr>rec_ID = [], rec_Name = ''new'', rec_Data = ''10.0.0.6'', rec_TTL = 60,
           rec_Type = ''A''\<rparr>],
       ChangeAdd
         [\<lparr>rec_ID = [], rec_Name = ''new'', rec_Data = ''10.0.0.5'', rec_TTL = 60,
           rec_Type = ''A''\<rparr>,
          \<lparr>rec_ID = [], rec_Name = ''new'', rec_Data = ''10.0.0.6'', rec_TTL = 60,
           rec_Type = ''A''\<rparr>,
          \<lparr>rec_ID = [], rec_Name = ''new'', rec_Data = ''10.0.0.5'', rec_TTL = 60,
           rec_Type = ''A''\<rparr>,
          \<lparr>rec_ID = [], rec_Name = ''new'', rec_Data = ''10.0.0.6'', rec_TTL = 60,
           rec_Type = ''A''\<rparr>]]"
    by code_simp
  have e4: "deleteChanges ensureDot ''example.com'' [existingRecord] [removeExisting] =
      [ChangeDelete ''rec-1'']"
    by code_simp
  have e5: "rrs_data removeExisting \<noteq> []"
    by (simp add: removeExisting_def)
  show ?thesis
    using Apply_one_update_call [of emptyChangeset "sampleDomainAPI None" ensureDot dnsWorld0]
      Apply_one_update_call [of sampleChangeset "sampleDomainAPI (Some unavailable)" ensureDot dnsWorld0]
      Apply_one_update_call [of sampleChangeset "sampleDomainAPI None" ensureDot dnsWorld0]
    by (simp add: IsEmpty_def sampleDomainAPI_def sampleChangeset_def emptyChangeset_def
        dnsWorld0_def e1 e2 e3 e4 e5)
qed

end
